theory Spec2Isabelle
  imports Complex_Main
begin

section \<open>JavaScript values\<close>

text \<open>
  A JavaScript number is a double. A finite number is modelled by the rational it denotes
  (\<open>-0\<close> is \<open>0\<close>, which is falsy like \<open>0\<close>), next to the three special values. A decimal
  literal of the source is written as the rational it spells.
\<close>

datatype jsnum = NaN | NegInf | Fin rat | PosInf

subsection \<open>Arithmetic on doubles\<close>

text \<open>
  The sum, difference, product or quotient of two doubles is the exact result rounded to
  the nearest double, ties to the even significand (53 bits, the smallest exponent
  -1022). \<open>double_of\<close> is that rounding of a rational; a result beyond the largest double
  (about 1.8e308), which no computation below comes near, is not modelled.
\<close>

function bit_length :: "int \<Rightarrow> int" where
  "bit_length n = (if n \<le> 0 then 0 else 1 + bit_length (n div 2))"
  by pat_completeness auto
termination
  by (relation "measure nat") auto

declare bit_length.simps [simp del]

definition pow2 :: "int \<Rightarrow> rat" where
  "pow2 n = (if 0 \<le> n then 2 ^ nat n else 1 / 2 ^ nat (- n))"

definition round_half_even :: "rat \<Rightarrow> int" where
  "round_half_even y =
     (let f = \<lfloor>y\<rfloor>; r = y - of_int f
      in if r < 1/2 then f else if 1/2 < r then f + 1 else if even f then f else f + 1)"

text \<open>The exponent \<open>e\<close> of a number other than 0: \<open>2^e \<le> |x| < 2^(e+1)\<close>.\<close>

definition exponent_of :: "rat \<Rightarrow> int" where
  "exponent_of x =
     (let pq = quotient_of \<bar>x\<bar>;
          d = bit_length (fst pq) - bit_length (snd pq)
      in if pow2 d \<le> \<bar>x\<bar> then d else d - 1)"

definition double_of :: "rat \<Rightarrow> rat" where
  "double_of x =
     (if x = 0 then 0
      else let e = max (exponent_of x) (- 1022); ulp = pow2 (e - 52)
           in of_int (round_half_even (x / ulp)) * ulp)"

definition fadd :: "rat \<Rightarrow> rat \<Rightarrow> rat" where
  "fadd a b = double_of (a + b)"

definition fsub :: "rat \<Rightarrow> rat \<Rightarrow> rat" where
  "fsub a b = double_of (a - b)"

definition fmul :: "rat \<Rightarrow> rat \<Rightarrow> rat" where
  "fmul a b = double_of (a * b)"

definition fdiv :: "rat \<Rightarrow> rat \<Rightarrow> rat" where
  "fdiv a b = double_of (a / b)"

subsection \<open>Values\<close>

text \<open>
  What \<open>JSON.parse\<close> returns, and \<open>undefined\<close> for a property that is absent. An object is
  its list of own properties; the first binding of a key is the property's value.
\<close>

datatype jsval =
    Undefined
  | Null
  | JBool bool
  | JNum jsnum
  | JStr string
  | JArr "jsval list"
  | JObj "(string \<times> jsval) list"

datatype js_error = TypeError | SyntaxError | Error string | SaveRejected

text \<open>\<open>v.k\<close>: reading a property of \<open>null\<close> or \<open>undefined\<close> throws; none of the keys read below
  exists on the prototype of a number, string, boolean or array.\<close>

fun getp :: "jsval \<Rightarrow> string \<Rightarrow> js_error + jsval" where
  "getp Undefined k = Inl TypeError"
| "getp Null k = Inl TypeError"
| "getp (JObj kvs) k = Inr (case map_of kvs k of None \<Rightarrow> Undefined | Some v \<Rightarrow> v)"
| "getp v k = Inr Undefined"

fun truthy :: "jsval \<Rightarrow> bool" where
  "truthy Undefined = False"
| "truthy Null = False"
| "truthy (JBool b) = b"
| "truthy (JNum n) = (n \<noteq> NaN \<and> n \<noteq> Fin 0)"
| "truthy (JStr s) = (s \<noteq> [])"
| "truthy (JArr xs) = True"
| "truthy (JObj kvs) = True"

text \<open>\<open>a || b\<close>\<close>

definition js_or :: "jsval \<Rightarrow> jsval \<Rightarrow> jsval" where
  "js_or a b = (if truthy a then a else b)"

text \<open>
  \<open>ToNumber\<close>, which \<open>Math.min\<close> and \<open>Math.max\<close> apply to each argument. A parsed object
  has no callable \<open>valueOf\<close> or \<open>toString\<close> of its own: the inherited \<open>toString\<close> gives
  \<open>"[object Object]"\<close>, which is not a numeric string, unless an own property of that name
  hides it, and then the conversion throws. The conversion of a string and of an array
  (through its \<open>join\<close>) is the parameter \<open>conv\<close>.
\<close>

fun ToNumber :: "(jsval \<Rightarrow> js_error + jsnum) \<Rightarrow> jsval \<Rightarrow> js_error + jsnum" where
  "ToNumber conv Undefined = Inr NaN"
| "ToNumber conv Null = Inr (Fin 0)"
| "ToNumber conv (JBool b) = Inr (Fin (if b then 1 else 0))"
| "ToNumber conv (JNum n) = Inr n"
| "ToNumber conv (JStr s) = conv (JStr s)"
| "ToNumber conv (JArr xs) = conv (JArr xs)"
| "ToNumber conv (JObj kvs) =
     (if map_of kvs ''toString'' = None then Inr NaN else Inl TypeError)"

fun num_le :: "jsnum \<Rightarrow> jsnum \<Rightarrow> bool" where
  "num_le NaN b = False"
| "num_le a NaN = False"
| "num_le NegInf b = True"
| "num_le a PosInf = True"
| "num_le (Fin x) (Fin y) = (x \<le> y)"
| "num_le a b = False"

text \<open>\<open>Math.min\<close> and \<open>Math.max\<close> of two numbers: \<open>NaN\<close> if either is.\<close>

definition Math_min :: "jsnum \<Rightarrow> jsnum \<Rightarrow> jsnum" where
  "Math_min a b = (if a = NaN \<or> b = NaN then NaN else if num_le a b then a else b)"

definition Math_max :: "jsnum \<Rightarrow> jsnum \<Rightarrow> jsnum" where
  "Math_max a b = (if a = NaN \<or> b = NaN then NaN else if num_le a b then b else a)"

text \<open>\<open>Math.max(lo, Math.min(hi, v || d))\<close>\<close>

definition clamp_or :: "(jsval \<Rightarrow> js_error + jsnum) \<Rightarrow> rat \<Rightarrow> rat \<Rightarrow> jsval \<Rightarrow> rat
    \<Rightarrow> js_error + jsnum" where
  "clamp_or conv lo hi v d =
     (case ToNumber conv (js_or v (JNum (Fin d))) of
        Inl e \<Rightarrow> Inl e
      | Inr n \<Rightarrow> Inr (Math_max (Fin lo) (Math_min (Fin hi) n)))"

definition in_range :: "rat \<Rightarrow> rat \<Rightarrow> jsnum \<Rightarrow> bool" where
  "in_range lo hi n = (case n of Fin q \<Rightarrow> lo \<le> q \<and> q \<le> hi | _ \<Rightarrow> False)"

text \<open>Sequencing of steps that may throw: the first throw is the result.\<close>

definition ebind :: "'e + 'a \<Rightarrow> ('a \<Rightarrow> 'e + 'b) \<Rightarrow> 'e + 'b" where
  "ebind m f = (case m of Inl e \<Rightarrow> Inl e | Inr x \<Rightarrow> f x)"

section \<open>The external text-generation call\<close>

text \<open>
  What \<open>JSON.parse(response.choices[0].message.content)\<close> comes to, after
  \<open>await this.openai.chat.completions.create(...)\<close>: the call rejects (or the response has
  no first choice), the content is not JSON, or the content parses to a value.
\<close>

datatype llm_outcome = CallThrows | Unparsable | Parsed jsval

section \<open>EmotionAIService\<close>

record emotionAnalysis_result =
  primaryEmotion :: jsval
  intensity :: jsnum
  confidence :: jsnum
  triggers :: jsval
  context_of :: jsval
  needs :: jsval
  sentiment :: jsnum

definition analyzeEmotion_default :: "string \<Rightarrow> emotionAnalysis_result" where
  "analyzeEmotion_default context =
     \<lparr> primaryEmotion = JStr ''neutral'', intensity = Fin 5, confidence = Fin (3/10),
       triggers = JArr [], context_of = JStr context, needs = JArr [], sentiment = Fin 0 \<rparr>"

text \<open>The body of the \<open>try\<close> block after \<open>JSON.parse\<close>: the object literal's properties are
  evaluated in order and the first throw leaves the block.\<close>

definition analyzeEmotion_build ::
  "(jsval \<Rightarrow> js_error + jsnum) \<Rightarrow> jsval \<Rightarrow> string \<Rightarrow> js_error + emotionAnalysis_result" where
  "analyzeEmotion_build conv analysis context =
     (ebind (getp analysis ''primaryEmotion'') (\<lambda>pe.
      ebind (getp analysis ''intensity'') (\<lambda>i.
      ebind (clamp_or conv 1 10 i 5) (\<lambda>i'.
      ebind (getp analysis ''confidence'') (\<lambda>c.
      ebind (clamp_or conv 0 1 c (1/2)) (\<lambda>c'.
      ebind (getp analysis ''triggers'') (\<lambda>t.
      ebind (getp analysis ''context'') (\<lambda>cx.
      ebind (getp analysis ''needs'') (\<lambda>n.
      ebind (getp analysis ''sentiment'') (\<lambda>s.
      ebind (clamp_or conv (-1) 1 s 0) (\<lambda>s'.
        Inr \<lparr> primaryEmotion = js_or pe (JStr ''neutral''), intensity = i', confidence = c',
              triggers = js_or t (JArr []), context_of = js_or cx (JStr context),
              needs = js_or n (JArr []), sentiment = s' \<rparr>)))))))))))"

definition analyzeEmotion ::
  "(jsval \<Rightarrow> js_error + jsnum) \<Rightarrow> llm_outcome \<Rightarrow> string \<Rightarrow> emotionAnalysis_result" where
  "analyzeEmotion conv resp context =
     (case resp of
        CallThrows \<Rightarrow> analyzeEmotion_default context
      | Unparsable \<Rightarrow> analyzeEmotion_default context
      | Parsed analysis \<Rightarrow>
          (case analyzeEmotion_build conv analysis context of
             Inl e \<Rightarrow> analyzeEmotion_default context
           | Inr r \<Rightarrow> r))"

record overallEmotion_result =
  dominantEmotion :: jsval
  averageIntensity :: jsnum
  emotionalState :: jsval
  wellBeingScore :: jsnum
  stressLevel :: jsnum
  energyLevel :: jsnum
  satisfaction :: jsnum

definition analyzeOverallEmotion_default :: overallEmotion_result where
  "analyzeOverallEmotion_default =
     \<lparr> dominantEmotion = JStr ''neutral'', averageIntensity = Fin 5,
       emotionalState = JStr ''balanced'', wellBeingScore = Fin 5, stressLevel = Fin 5,
       energyLevel = Fin 5, satisfaction = Fin 5 \<rparr>"

definition analyzeOverallEmotion_build ::
  "(jsval \<Rightarrow> js_error + jsnum) \<Rightarrow> jsval \<Rightarrow> js_error + overallEmotion_result" where
  "analyzeOverallEmotion_build conv analysis =
     (ebind (getp analysis ''dominantEmotion'') (\<lambda>de.
      ebind (getp analysis ''averageIntensity'') (\<lambda>ai.
      ebind (clamp_or conv 1 10 ai 5) (\<lambda>ai'.
      ebind (getp analysis ''emotionalState'') (\<lambda>es.
      ebind (getp analysis ''wellBeingScore'') (\<lambda>wb.
      ebind (clamp_or conv 1 10 wb 5) (\<lambda>wb'.
      ebind (getp analysis ''stressLevel'') (\<lambda>sl.
      ebind (clamp_or conv 1 10 sl 5) (\<lambda>sl'.
      ebind (getp analysis ''energyLevel'') (\<lambda>el.
      ebind (clamp_or conv 1 10 el 5) (\<lambda>el'.
      ebind (getp analysis ''satisfaction'') (\<lambda>sa.
      ebind (clamp_or conv 1 10 sa 5) (\<lambda>sa'.
        Inr \<lparr> dominantEmotion = js_or de (JStr ''neutral''), averageIntensity = ai',
              emotionalState = js_or es (JStr ''balanced''), wellBeingScore = wb',
              stressLevel = sl', energyLevel = el', satisfaction = sa' \<rparr>)))))))))))))"

definition analyzeOverallEmotion ::
  "(jsval \<Rightarrow> js_error + jsnum) \<Rightarrow> llm_outcome \<Rightarrow> overallEmotion_result" where
  "analyzeOverallEmotion conv resp =
     (case resp of
        CallThrows \<Rightarrow> analyzeOverallEmotion_default
      | Unparsable \<Rightarrow> analyzeOverallEmotion_default
      | Parsed analysis \<Rightarrow>
          (case analyzeOverallEmotion_build conv analysis of
             Inl e \<Rightarrow> analyzeOverallEmotion_default
           | Inr r \<Rightarrow> r))"

record insights_result =
  emotionalPatterns :: jsval
  concerns :: jsval
  positiveFactors :: jsval
  recommendations_of :: jsval
  keyTopics :: jsval

definition generateEmotionalInsights_default :: insights_result where
  "generateEmotionalInsights_default =
     \<lparr> emotionalPatterns = JArr [], concerns = JArr [], positiveFactors = JArr [],
       recommendations_of = JArr [], keyTopics = JArr [] \<rparr>"

definition generateEmotionalInsights_build :: "jsval \<Rightarrow> js_error + insights_result" where
  "generateEmotionalInsights_build insights =
     (ebind (getp insights ''emotionalPatterns'') (\<lambda>ep.
      ebind (getp insights ''concerns'') (\<lambda>co.
      ebind (getp insights ''positiveFactors'') (\<lambda>pf.
      ebind (getp insights ''recommendations'') (\<lambda>re.
      ebind (getp insights ''keyTopics'') (\<lambda>kt.
        Inr \<lparr> emotionalPatterns = js_or ep (JArr []), concerns = js_or co (JArr []),
              positiveFactors = js_or pf (JArr []), recommendations_of = js_or re (JArr []),
              keyTopics = js_or kt (JArr []) \<rparr>))))))"

definition generateEmotionalInsights :: "llm_outcome \<Rightarrow> insights_result" where
  "generateEmotionalInsights resp =
     (case resp of
        CallThrows \<Rightarrow> generateEmotionalInsights_default
      | Unparsable \<Rightarrow> generateEmotionalInsights_default
      | Parsed insights \<Rightarrow>
          (case generateEmotionalInsights_build insights of
             Inl e \<Rightarrow> generateEmotionalInsights_default
           | Inr r \<Rightarrow> r))"

section \<open>Stored documents\<close>

text \<open>
  The documents as the schemas type them. A number that may be absent is a \<open>rat option\<close>
  (\<open>None\<close> is \<open>undefined\<close>). The fields of the stored documents carry a short prefix where
  the same name occurs in another document.
\<close>

type_synonym objectId = nat

text \<open>A \<open>Date\<close>: its time value in milliseconds and the local-time readings the service asks for.\<close>

record jsdate =
  getTime :: int
  getHours :: nat
  getDay :: nat
  getMonth :: nat

record emotionAnalysis =
  ea_primaryEmotion :: string
  ea_intensity :: rat
  ea_confidence :: rat
  ea_triggers :: "string list"
  ea_context :: "string option"
  ea_needs :: "string list"
  ea_sentiment :: "rat option"

record question =
  questionId :: string
  questionText :: string
  userResponse :: string
  emotionAnalysis :: emotionAnalysis
  timestamp :: jsdate

record overallEmotion =
  oe_dominantEmotion :: "string option"
  oe_averageIntensity :: "rat option"
  oe_emotionalState :: "string option"
  oe_wellBeingScore :: "rat option"
  oe_stressLevel :: "rat option"
  oe_energyLevel :: "rat option"
  oe_satisfaction :: "rat option"

record insights =
  in_emotionalPatterns :: "string list"
  in_concerns :: "string list"
  in_positiveFactors :: "string list"
  in_recommendations :: "string list"
  in_keyTopics :: "string list"

datatype status = in_progress | completed | abandoned

datatype conversationType = daily | weekly | monthly | custom

text \<open>\<open>contextualFactors\<close> is read by the analytics service but is no path of the schema.\<close>

record contextualFactors =
  externalEvents :: "string list option"
  workload :: "rat option"
  weather :: "string option"
  location :: "string option"
  device :: "string option"

record emotionConversation =
  conv_id :: objectId
  tenantId :: objectId
  userId :: objectId
  sessionId :: string
  conversationType :: conversationType
  questions :: "question list"
  overallEmotion :: overallEmotion
  insights :: insights
  status :: status
  createdAt :: jsdate
  completedAt :: "jsdate option"
  contextualFactors :: "contextualFactors option"

text \<open>Of the user profile, the emotional baseline the historical analysis compares with.\<close>

record userProfile =
  up_userId :: objectId
  up_tenantId :: objectId
  baseline_mood :: "rat option"
  baseline_stress :: "rat option"
  baseline_energy :: "rat option"
  baseline_satisfaction :: "rat option"

text \<open>\<open>x || d\<close> and \<open>x > b\<close>, \<open>x < b\<close> for a number that may be \<open>undefined\<close>, and \<open>x - y\<close>, which is
  \<open>NaN\<close> (\<open>None\<close>) when either is \<open>undefined\<close>.\<close>

definition sub_num :: "rat option \<Rightarrow> rat option \<Rightarrow> rat option" where
  "sub_num x y = (case x of None \<Rightarrow> None
                  | Some a \<Rightarrow> (case y of None \<Rightarrow> None | Some b \<Rightarrow> Some (fsub a b)))"


definition or_num :: "rat option \<Rightarrow> rat \<Rightarrow> rat" where
  "or_num x d = (case x of None \<Rightarrow> d | Some v \<Rightarrow> if v = 0 then d else v)"

definition gt_num :: "rat option \<Rightarrow> rat \<Rightarrow> bool" where
  "gt_num x b = (case x of None \<Rightarrow> False | Some v \<Rightarrow> v > b)"

definition lt_num :: "rat option \<Rightarrow> rat \<Rightarrow> bool" where
  "lt_num x b = (case x of None \<Rightarrow> False | Some v \<Rightarrow> v < b)"

section \<open>Plain objects used as counters\<close>

text \<open>
  An object used as a dictionary is the list of its properties in creation order.
  \<open>Object.entries\<close> lists the keys that are array indices first, in ascending order, and
  then the others in creation order. Keys are taken not to name a property of
  \<open>Object.prototype\<close>.
\<close>

definition is_digit :: "char \<Rightarrow> bool" where
  "is_digit c = ((48::nat) \<le> of_char c \<and> of_char c \<le> (57::nat))"

definition nat_of_digits :: "string \<Rightarrow> nat" where
  "nat_of_digits s = foldl (\<lambda>n c. 10 * n + (of_char c - 48)) 0 s"

definition is_array_index :: "string \<Rightarrow> bool" where
  "is_array_index s =
     (s \<noteq> [] \<and> list_all is_digit s \<and> (s = ''0'' \<or> hd s \<noteq> CHR ''0'')
      \<and> nat_of_digits s \<le> 4294967294)"

definition Object_entries :: "(string \<times> 'a) list \<Rightarrow> (string \<times> 'a) list" where
  "Object_entries kvs =
     sort_key (\<lambda>kv. nat_of_digits (fst kv)) (filter (\<lambda>kv. is_array_index (fst kv)) kvs)
     @ filter (\<lambda>kv. \<not> is_array_index (fst kv)) kvs"

text \<open>\<open>o[k] = (o[k] || 0) + n\<close>\<close>

fun count_add :: "string \<Rightarrow> rat \<Rightarrow> (string \<times> rat) list \<Rightarrow> (string \<times> rat) list" where
  "count_add k n [] = [(k, fadd 0 n)]"
| "count_add k n ((k', v) # kvs) =
     (if k = k' then (k', fadd v n) # kvs else (k', v) # count_add k n kvs)"

text \<open>\<open>.sort((a, b) => b.frequency - a.frequency)\<close>: a stable sort, largest first.\<close>

definition sort_desc :: "('a \<Rightarrow> rat) \<Rightarrow> 'a list \<Rightarrow> 'a list" where
  "sort_desc f xs = sort_key (\<lambda>x. - f x) xs"

section \<open>ConversationAnalyticsService\<close>

datatype msg_type = ai | user

record message =
  msg_type :: msg_type
  content :: string
  msg_timestamp :: jsdate
  msg_emotionAnalysis :: "emotionAnalysis option"

record conversationData =
  messages :: "message list"
  totalDuration :: rat
  responseTimes :: "rat list"
  cd_conversationType :: conversationType
  cd_overallEmotion :: overallEmotion
  cd_insights :: insights

fun responseTimes_of :: "question list \<Rightarrow> rat list" where
  "responseTimes_of (prevQuestion # question # qs) =
     fdiv (of_int (getTime (timestamp question) - getTime (timestamp prevQuestion))) 1000
       # responseTimes_of (question # qs)"
| "responseTimes_of qs = []"

definition extractConversationData :: "emotionConversation \<Rightarrow> conversationData" where
  "extractConversationData conversation =
     \<lparr> messages = concat (map (\<lambda>question.
           [ \<lparr> msg_type = ai, content = questionText question,
               msg_timestamp = timestamp question, msg_emotionAnalysis = None \<rparr>,
             \<lparr> msg_type = user, content = userResponse question,
               msg_timestamp = timestamp question,
               msg_emotionAnalysis = Some (emotionAnalysis question) \<rparr> ])
         (questions conversation)),
       totalDuration = 0,
       responseTimes = responseTimes_of (questions conversation),
       cd_conversationType = conversationType conversation,
       cd_overallEmotion = overallEmotion conversation,
       cd_insights = insights conversation \<rparr>"

text \<open>\<open>xs.reduce((a, b) => a + b, 0) / xs.length\<close>\<close>

definition average :: "rat list \<Rightarrow> rat" where
  "average xs = fdiv (foldl (\<lambda>a b. fadd a b) 0 xs) (of_nat (length xs))"

record metrics =
  totalMessages :: nat
  userMessages :: nat
  aiMessages :: nat
  conversationDuration :: rat
  averageResponseTime :: rat
  sentimentScore :: rat
  emotionalIntensity :: rat
  m_wellBeingScore :: rat
  m_stressLevel :: rat
  m_energyLevel :: rat
  m_satisfactionLevel :: rat

definition calculateMetrics :: "conversationData \<Rightarrow> metrics" where
  "calculateMetrics conversationData =
     (let userMsgs = filter (\<lambda>msg. msg_type msg = user) (messages conversationData);
          aiMsgs = filter (\<lambda>msg. msg_type msg = ai) (messages conversationData);
          sentimentScores = filter (\<lambda>score. score \<noteq> 0)
            (map (\<lambda>msg. or_num (case msg_emotionAnalysis msg of None \<Rightarrow> None
                                   | Some a \<Rightarrow> ea_sentiment a) 0) userMsgs);
          avgSentiment = (if length sentimentScores > 0 then average sentimentScores else 0);
          intensities = filter (\<lambda>i. i \<noteq> 5)
            (map (\<lambda>msg. or_num (case msg_emotionAnalysis msg of None \<Rightarrow> None
                                   | Some a \<Rightarrow> Some (ea_intensity a)) 5) userMsgs);
          avgIntensity = (if length intensities > 0 then average intensities else 5);
          avgResponseTime = (if length (responseTimes conversationData) > 0
                             then average (responseTimes conversationData) else 0)
      in \<lparr> totalMessages = length (messages conversationData),
           userMessages = length userMsgs,
           aiMessages = length aiMsgs,
           conversationDuration = totalDuration conversationData,
           averageResponseTime = avgResponseTime,
           sentimentScore = avgSentiment,
           emotionalIntensity = avgIntensity,
           m_wellBeingScore = or_num (oe_wellBeingScore (cd_overallEmotion conversationData)) 5,
           m_stressLevel = or_num (oe_stressLevel (cd_overallEmotion conversationData)) 5,
           m_energyLevel = or_num (oe_energyLevel (cd_overallEmotion conversationData)) 5,
           m_satisfactionLevel = or_num (oe_satisfaction (cd_overallEmotion conversationData)) 5 \<rparr>)"

text \<open>The entries \<open>{emotion, frequency, intensity: 5}\<close> and their like are kept as the pair of
  name and frequency.\<close>

record emotionalInsights =
  dominantEmotions :: "(string \<times> rat) list"
  emotionalTriggers :: "(string \<times> rat) list"
  emotionalNeeds :: "(string \<times> rat) list"

definition analyzeEmotionalContent :: "conversationData \<Rightarrow> emotionalInsights" where
  "analyzeEmotionalContent conversationData =
     (let analyses = concat (map (\<lambda>msg. case msg_emotionAnalysis msg of
                                   None \<Rightarrow> [] | Some a \<Rightarrow> if msg_type msg = user then [a] else [])
                            (messages conversationData));
          emotions = foldl (\<lambda>acc a. if ea_primaryEmotion a \<noteq> [] then count_add (ea_primaryEmotion a) 1 acc
                                    else acc) [] analyses;
          trigs = foldl (\<lambda>acc a. foldl (\<lambda>acc' t. count_add t 1 acc') acc (ea_triggers a)) [] analyses;
          nds = foldl (\<lambda>acc a. foldl (\<lambda>acc' n. count_add n 1 acc') acc (ea_needs a)) [] analyses
      in \<lparr> dominantEmotions = take 5 (sort_desc snd (Object_entries emotions)),
           emotionalTriggers = take 5 (sort_desc snd (Object_entries trigs)),
           emotionalNeeds = take 5 (sort_desc snd (Object_entries nds)) \<rparr>)"

record topic_entry =
  topic :: string
  frequency :: rat
  t_sentiment :: rat
  t_keywords :: "string list"

record recommendation =
  rec_type :: string
  priority :: string
  description :: string
  actionable :: bool

text \<open>Of \<open>calculateQualityMetrics\<close>, \<open>helpfulness\<close> (a value of the provider's payload) is
  not kept; reading it may throw, which is.\<close>

record qualityMetrics =
  engagement :: rat
  openness :: rat
  trust :: rat
  q_satisfaction :: rat

record contextualAnalysis =
  timeOfDay :: string
  dayOfWeek :: "string option"
  season :: string
  ca_externalEvents :: "string list"
  ca_workload :: rat
  ca_weather :: string
  ca_location :: string
  ca_device :: string
  impactOnMood :: int
  environmentalStressors :: "string list"
  environmentalSupports :: "string list"

text \<open>The comparison with the user's baseline: four differences, \<open>None\<close> for \<open>NaN\<close>.\<close>

record baselineComparison =
  moodVsBaseline :: "rat option"
  stressVsBaseline :: "rat option"
  energyVsBaseline :: "rat option"
  satisfactionVsBaseline :: "rat option"

text \<open>Of the historical block, the entries computed from the fetched conversations and
  the profile. The progress indicators and the trend analysis are constants.\<close>

record historicalAnalysis =
  previousMood :: rat
  trendDirection :: string
  recurringThemes :: "string list"
  baselineComparison :: baselineComparison

text \<open>
  The analytics document, with the blocks the dashboard and the properties below read.
  The interaction and comparative blocks are left out: they hold numbers and constants,
  and their computations do not throw. The blocks taken from the provider's payloads
  (\<open>aiPerformance\<close>, \<open>conversationSummary\<close>, \<open>predictiveInsights\<close>) and the action tracking
  (a copy of the recommendations) are left out too; what they mean for saving the
  document is part of \<open>analyzeConversation\<close> below.
\<close>

record conversationAnalytics =
  a_tenantId :: objectId
  a_userId :: objectId
  a_conversationId :: objectId
  a_date :: jsdate
  a_conversationType :: conversationType
  a_metrics :: metrics
  a_emotionalInsights :: emotionalInsights
  a_topics :: "topic_entry list"
  a_qualityMetrics :: qualityMetrics
  a_recommendations :: "recommendation list"
  a_contextualAnalysis :: contextualAnalysis
  a_historicalAnalysis :: historicalAnalysis

subsection \<open>Topics\<close>

text \<open>Strings are ASCII: \<open>toLowerCase\<close> maps \<open>A\<close> to \<open>Z\<close> and \<open>includes\<close> (\<open>str_includes\<close>) is the substring test.\<close>

definition toLowerCase :: "string \<Rightarrow> string" where
  "toLowerCase s = map (\<lambda>c. if (65::nat) \<le> of_char c \<and> of_char c \<le> (90::nat)
                              then char_of (of_char c + (32::nat)) else c) s"

fun startsWith :: "string \<Rightarrow> string \<Rightarrow> bool" where
  "startsWith s [] = True"
| "startsWith [] (k # ks) = False"
| "startsWith (c # s) (k # ks) = (c = k \<and> startsWith s ks)"

fun str_includes :: "string \<Rightarrow> string \<Rightarrow> bool" where
  "str_includes [] k = (k = [])"
| "str_includes (c # s) k = (startsWith (c # s) k \<or> str_includes s k)"

definition topicKeywords :: "(string \<times> string list) list" where
  "topicKeywords =
     [ (''work'', [''work'', ''job'', ''office'', ''meeting'', ''project'', ''deadline'',
                   ''manager'', ''colleague'']),
       (''stress'', [''stress'', ''stressed'', ''overwhelmed'', ''pressure'', ''anxiety'',
                     ''worried'']),
       (''relationships'', [''relationship'', ''family'', ''friend'', ''partner'', ''team'',
                            ''social'']),
       (''health'', [''health'', ''sick'', ''tired'', ''energy'', ''sleep'', ''exercise'',
                     ''wellness'']),
       (''goals'', [''goal'', ''future'', ''career'', ''plan'', ''dream'', ''aspiration'',
                    ''ambition'']) ]"

text \<open>
  The class body defines \<open>analyzeTopics\<close> twice. The first definition (by keyword, over a
  conversation's user messages) is replaced by the second and is never called; it is
  \<open>analyzeTopics_shadowed\<close> here.
\<close>

definition analyzeTopics_shadowed :: "conversationData \<Rightarrow> topic_entry list" where
  "analyzeTopics_shadowed conversationData =
     (let userMsgs = filter (\<lambda>msg. msg_type msg = user) (messages conversationData);
          topics = foldl (\<lambda>acc msg.
                     let content' = toLowerCase (content msg)
                     in foldl (\<lambda>acc' tk.
                          let matches = filter (\<lambda>keyword. str_includes content' keyword) (snd tk)
                          in if length matches > 0
                             then count_add (fst tk) (of_nat (length matches)) acc'
                             else acc')
                        acc topicKeywords)
                   [] userMsgs
      in sort_desc frequency
           (map (\<lambda>tf. \<lparr> topic = fst tf, frequency = snd tf, t_sentiment = 0,
                        t_keywords = (case map_of topicKeywords (fst tf) of
                                      None \<Rightarrow> [] | Some ks \<Rightarrow> ks) \<rparr>)
                (Object_entries topics)))"

text \<open>
  The second definition, the one every call reaches. Its argument is an array of analytics
  documents (the topics route) or a single object: the conversation data, in
  \<open>analyzeConversation\<close> and \<open>generateRecommendations\<close>.
\<close>

datatype analyzeTopics_item = ItemAnalytics conversationAnalytics | ItemConversationData conversationData

datatype analyzeTopics_arg = ArgArray "analyzeTopics_item list" | ArgObject analyzeTopics_item

text \<open>\<open>Array.isArray(analytics) ? analytics : [analytics]\<close>\<close>

fun analyticsArray_of :: "analyzeTopics_arg \<Rightarrow> analyzeTopics_item list" where
  "analyticsArray_of (ArgArray xs) = xs"
| "analyticsArray_of (ArgObject x) = [x]"

text \<open>\<open>analyticsItem.topics\<close>: the object \<open>extractConversationData\<close> returns has the properties
  \<open>messages\<close>, \<open>totalDuration\<close>, \<open>responseTimes\<close>, \<open>conversationType\<close>, \<open>overallEmotion\<close> and
  \<open>insights\<close>, and no \<open>topics\<close>.\<close>

fun item_topics :: "analyzeTopics_item \<Rightarrow> topic_entry list option" where
  "item_topics (ItemAnalytics a) = Some (a_topics a)"
| "item_topics (ItemConversationData cd) = None"

fun topic_add :: "topic_entry \<Rightarrow> topic_entry list \<Rightarrow> topic_entry list" where
  "topic_add t [] =
     [\<lparr> topic = topic t, frequency = fadd 0 (frequency t), t_sentiment = fadd 0 (t_sentiment t),
        t_keywords = t_keywords t \<rparr>]"
| "topic_add t (e # es) =
     (if topic e = topic t
      then e\<lparr> frequency := fadd (frequency e) (frequency t),
              t_sentiment := fadd (t_sentiment e) (t_sentiment t) \<rparr> # es
      else e # topic_add t es)"

definition analyzeTopics :: "analyzeTopics_arg \<Rightarrow> topic_entry list" where
  "analyzeTopics analytics =
     (let analyticsArray = analyticsArray_of analytics;
          topics = foldl (\<lambda>acc analyticsItem.
                     case item_topics analyticsItem of
                       None \<Rightarrow> acc
                     | Some ts \<Rightarrow> foldl (\<lambda>acc' t. topic_add t acc') acc ts)
                   [] analyticsArray;
          topics' = (if length topics > 0
                     then map (\<lambda>e. e\<lparr> t_sentiment := fdiv (t_sentiment e) (of_nat (length analyticsArray)) \<rparr>)
                              topics
                     else topics)
      in take 10 (sort_desc frequency
                   (map snd (Object_entries (map (\<lambda>e. (topic e, e)) topics')))))"

subsection \<open>Quality metrics, insights of the provider, recommendations\<close>

definition getDefaultInsights :: jsval where
  "getDefaultInsights =
     JObj [ (''emotionalPatterns'', JArr []), (''triggers'', JArr []), (''needs'', JArr []),
            (''concerns'', JArr []), (''positiveAspects'', JArr []),
            (''aiPerformance'', JObj [ (''empathy'', JNum (Fin 7)), (''relevance'', JNum (Fin 7)),
                                       (''questionQuality'', JNum (Fin 7)),
                                       (''contextualAwareness'', JNum (Fin 7)) ]),
            (''summary'', JObj [ (''keyPoints'', JArr []), (''concerns'', JArr []),
                                 (''positiveAspects'', JArr []),
                                 (''areasForImprovement'', JArr []) ]),
            (''recommendations'', JArr []) ]"

text \<open>The parsed payload is returned as it is.\<close>

definition generateAIInsights :: "llm_outcome \<Rightarrow> jsval" where
  "generateAIInsights resp =
     (case resp of
        CallThrows \<Rightarrow> getDefaultInsights
      | Unparsable \<Rightarrow> getDefaultInsights
      | Parsed v \<Rightarrow> v)"

definition getDefaultPredictiveInsights :: jsval where
  "getDefaultPredictiveInsights =
     JObj [ (''riskFactors'', JArr []), (''improvementAreas'', JArr []),
            (''successIndicators'', JArr []), (''interventionRecommendations'', JArr []),
            (''predictedOutcomes'',
               JObj [ (''nextWeekMood'', JNum (Fin 5)), (''nextWeekStress'', JNum (Fin 5)),
                      (''nextWeekEnergy'', JNum (Fin 5)), (''confidence'', JNum (Fin (1/2))) ]),
            (''earlyWarningSignals'', JArr []), (''opportunityAreas'', JArr []) ]"

definition generatePredictiveInsights :: "llm_outcome \<Rightarrow> jsval" where
  "generatePredictiveInsights resp =
     (case resp of
        CallThrows \<Rightarrow> getDefaultPredictiveInsights
      | Unparsable \<Rightarrow> getDefaultPredictiveInsights
      | Parsed v \<Rightarrow> v)"

definition calculateQualityMetrics :: "conversationData \<Rightarrow> jsval \<Rightarrow> js_error + qualityMetrics" where
  "calculateQualityMetrics conversationData aiInsights =
     (let userMsgs = filter (\<lambda>msg. msg_type msg = user) (messages conversationData);
          avgMessageLength =
            (if length userMsgs > 0
             then fdiv (foldl (\<lambda>sum msg. fadd sum (of_nat (length (content msg)))) 0 userMsgs)
                       (of_nat (length userMsgs))
             else 0)
      in ebind (getp aiInsights ''aiPerformance'') (\<lambda>aiPerformance.
           Inr \<lparr> engagement = min 10 (max 1 (fdiv avgMessageLength 10)),
                 openness = min 10 (max 1 (fmul (of_nat (length userMsgs)) 2)),
                 trust = 7,
                 q_satisfaction = or_num (oe_satisfaction (cd_overallEmotion conversationData)) 5 \<rparr>))"

definition generateRecommendations :: "conversationData \<Rightarrow> jsval \<Rightarrow> recommendation list" where
  "generateRecommendations conversationData aiInsights =
     (let r1 = (if gt_num (oe_stressLevel (cd_overallEmotion conversationData)) 7
                then [\<lparr> rec_type = ''emotional_support'', priority = ''high'',
                        description = ''High stress levels detected. Consider stress management techniques.'',
                        actionable = True \<rparr>]
                else []);
          r2 = (if lt_num (oe_wellBeingScore (cd_overallEmotion conversationData)) 4
                then [\<lparr> rec_type = ''personal_development'', priority = ''high'',
                        description = ''Low well-being score. Focus on self-care and positive activities.'',
                        actionable = True \<rparr>]
                else []);
          topics = analyzeTopics (ArgObject (ItemConversationData conversationData));
          r3 = (if list_ex (\<lambda>t. topic t = ''work'' \<and> frequency t > 3) topics
                then [\<lparr> rec_type = ''workplace_improvement'', priority = ''medium'',
                        description = ''Work-related concerns identified. Consider workplace support resources.'',
                        actionable = True \<rparr>]
                else [])
      in r1 @ r2 @ r3)"

subsection \<open>Contextual factors\<close>

definition getTimeOfDay :: "jsdate \<Rightarrow> string" where
  "getTimeOfDay date =
     (let hour = getHours date
      in if hour < 6 then ''night''
         else if hour < 12 then ''morning''
         else if hour < 18 then ''afternoon''
         else ''evening'')"

text \<open>\<open>days[date.getDay()]\<close>, \<open>undefined\<close> beyond the array.\<close>

definition getDayOfWeek :: "jsdate \<Rightarrow> string option" where
  "getDayOfWeek date =
     (let days = [''sunday'', ''monday'', ''tuesday'', ''wednesday'', ''thursday'', ''friday'',
                  ''saturday'']
      in if getDay date < length days then Some (days ! getDay date) else None)"

definition getSeason :: "jsdate \<Rightarrow> string" where
  "getSeason date =
     (let month = getMonth date
      in if month < 3 then ''spring''
         else if month < 6 then ''summer''
         else if month < 9 then ''autumn''
         else ''winter'')"

definition calculateEnvironmentalImpact :: "contextualFactors \<Rightarrow> int" where
  "calculateEnvironmentalImpact cf =
     (let impact0 = (0::int);
          impact1 = (if gt_num (workload cf) 7 then impact0 - 2 else impact0);
          impact2 = (if weather cf = Some ''sunny'' then impact1 + 1 else impact1);
          impact3 = (if location cf = Some ''home'' then impact2 + 1 else impact2)
      in max (-5) (min 5 impact3))"

definition identifyEnvironmentalStressors :: "contextualFactors \<Rightarrow> string list" where
  "identifyEnvironmentalStressors cf =
     (if gt_num (workload cf) 7 then [''high_workload''] else [])
     @ (if weather cf = Some ''stormy'' then [''bad_weather''] else [])
     @ (if location cf = Some ''office'' then [''work_environment''] else [])"

definition identifyEnvironmentalSupports :: "contextualFactors \<Rightarrow> string list" where
  "identifyEnvironmentalSupports cf =
     (if weather cf = Some ''sunny'' then [''good_weather''] else [])
     @ (if location cf = Some ''home'' then [''comfortable_environment''] else [])"

text \<open>\<open>s || d\<close> for a string that may be \<open>undefined\<close>.\<close>

definition or_str :: "string option \<Rightarrow> string \<Rightarrow> string" where
  "or_str x d = (case x of None \<Rightarrow> d | Some v \<Rightarrow> if v = [] then d else v)"

text \<open>The first argument is the reading of the clock by \<open>new Date()\<close> in the function's body.\<close>

definition analyzeContextualFactors :: "jsdate \<Rightarrow> emotionConversation \<Rightarrow> contextualAnalysis" where
  "analyzeContextualFactors now conversation =
     (let cf = (case contextualFactors conversation of
                  None \<Rightarrow> \<lparr> externalEvents = None, workload = None, weather = None,
                            location = None, device = None \<rparr>
                | Some c \<Rightarrow> c)
      in \<lparr> timeOfDay = getTimeOfDay now,
           dayOfWeek = getDayOfWeek now,
           season = getSeason now,
           ca_externalEvents = (case externalEvents cf of None \<Rightarrow> [] | Some es \<Rightarrow> es),
           ca_workload = or_num (workload cf) 5,
           ca_weather = or_str (weather cf) ''unknown'',
           ca_location = or_str (location cf) ''unknown'',
           ca_device = or_str (device cf) ''unknown'',
           impactOnMood = calculateEnvironmentalImpact cf,
           environmentalStressors = identifyEnvironmentalStressors cf,
           environmentalSupports = identifyEnvironmentalSupports cf \<rparr>)"

subsection \<open>Historical context\<close>

definition calculatePreviousMood :: "emotionConversation list \<Rightarrow> rat" where
  "calculatePreviousMood recentConversations =
     (case recentConversations of
        [] \<Rightarrow> 5
      | lastConversation # _ \<Rightarrow> or_num (oe_wellBeingScore (overallEmotion lastConversation)) 5)"

text \<open>\<open>cs.reduce((sum, c) => sum + (c.overallEmotion?.wellBeingScore || 5), 0) / cs.length\<close>\<close>

definition wellBeing_avg :: "emotionConversation list \<Rightarrow> rat" where
  "wellBeing_avg cs =
     fdiv (foldl (\<lambda>sum c. fadd sum (or_num (oe_wellBeingScore (overallEmotion c)) 5)) 0 cs)
          (of_nat (length cs))"

definition calculateTrendDirection :: "emotionConversation list \<Rightarrow> string" where
  "calculateTrendDirection recentConversations =
     (if length recentConversations < 2 then ''stable''
      else let recent = take 3 recentConversations;
               older = take 3 (drop 3 recentConversations)
           in if length recent = 0 \<or> length older = 0 then ''stable''
              else let recentAvg = wellBeing_avg recent;
                       olderAvg = wellBeing_avg older
                   in if recentAvg > fadd olderAvg (1/2) then ''improving''
                      else if recentAvg < fsub olderAvg (1/2) then ''declining''
                      else ''stable'')"

definition identifyRecurringThemes :: "emotionConversation list \<Rightarrow> string list" where
  "identifyRecurringThemes recentConversations =
     (let themes = foldl (\<lambda>acc conv'. foldl (\<lambda>acc' t. count_add t 1 acc') acc
                                          (in_keyTopics (insights conv')))
                         [] recentConversations
      in map fst (filter (\<lambda>tc. snd tc > 1) (Object_entries themes)))"

text \<open>\<open>if (!userProfile?.baselineMetrics)\<close>: the block \<open>baselineMetrics\<close> and its
  \<open>emotionalBaseline\<close> are nested paths of the schema, present on every profile document.\<close>

definition calculateBaselineComparison ::
  "conversationData \<Rightarrow> userProfile option \<Rightarrow> baselineComparison" where
  "calculateBaselineComparison conversationData userProfile' =
     (case userProfile' of
        None \<Rightarrow> \<lparr> moodVsBaseline = Some 0, stressVsBaseline = Some 0,
                  energyVsBaseline = Some 0, satisfactionVsBaseline = Some 0 \<rparr>
      | Some p \<Rightarrow>
          \<lparr> moodVsBaseline =
              sub_num (oe_wellBeingScore (cd_overallEmotion conversationData)) (baseline_mood p),
            stressVsBaseline =
              sub_num (oe_stressLevel (cd_overallEmotion conversationData)) (baseline_stress p),
            energyVsBaseline =
              sub_num (oe_energyLevel (cd_overallEmotion conversationData)) (baseline_energy p),
            satisfactionVsBaseline =
              sub_num (oe_satisfaction (cd_overallEmotion conversationData))
                      (baseline_satisfaction p) \<rparr>)"

definition getDefaultHistoricalAnalysis :: historicalAnalysis where
  "getDefaultHistoricalAnalysis =
     \<lparr> previousMood = 5, trendDirection = ''stable'', recurringThemes = [],
       baselineComparison = \<lparr> moodVsBaseline = Some 0, stressVsBaseline = Some 0,
                              energyVsBaseline = Some 0, satisfactionVsBaseline = Some 0 \<rparr> \<rparr>"

subsection \<open>The store and the environment of one analysis\<close>

text \<open>The per-completion snapshot the conversation routes write (\<open>EmotionAnalytics\<close>).\<close>

record emotionAnalytics_doc =
  ean_tenantId :: objectId
  ean_userId :: objectId
  ean_date :: jsdate
  ean_emotionalMetrics :: overallEmotion_result
  ean_emotionalInsights :: insights_result
  ean_conversationId :: objectId

record store =
  conversations :: "emotionConversation list"
  analytics :: "conversationAnalytics list"
  emotionAnalytics :: "emotionAnalytics_doc list"
  profiles :: "userProfile list"

text \<open>
  \<open>EmotionConversation.find({userId, tenantId, createdAt: {$gte: ...}}).sort({createdAt: -1})\<close>,
  with the time \<open>Date.now()\<close> in milliseconds.
\<close>

definition find_recentConversations ::
  "store \<Rightarrow> int \<Rightarrow> objectId \<Rightarrow> objectId \<Rightarrow> emotionConversation list" where
  "find_recentConversations st nowMs userId' tenantId' =
     sort_key (\<lambda>c. - getTime (createdAt c))
       (filter (\<lambda>c. userId c = userId' \<and> tenantId c = tenantId'
                    \<and> getTime (createdAt c) \<ge> nowMs - 90 * 24 * 60 * 60 * 1000)
               (conversations st))"

text \<open>\<open>UserProfile.findOne({userId, tenantId})\<close>\<close>

definition findOne_profile :: "store \<Rightarrow> objectId \<Rightarrow> objectId \<Rightarrow> userProfile option" where
  "findOne_profile st userId' tenantId' =
     find (\<lambda>p. up_userId p = userId' \<and> up_tenantId p = tenantId') (profiles st)"

text \<open>
  What the surroundings answer during one call of \<open>analyzeConversation\<close>: the readings of
  the clock, the two calls of the provider, whether the store answers the queries of
  \<open>analyzeHistoricalContext\<close>, and whether the schema can cast the blocks taken from the
  provider's payloads when these are not of the schema's types (see \<open>schema_accepts\<close>).
\<close>

record env =
  clock_contextual :: jsdate
  clock_historical :: int
  clock_document :: jsdate
  aiInsights_response :: llm_outcome
  predictive_response :: llm_outcome
  history_queries_answer :: bool
  untyped_blocks_cast :: "jsval \<Rightarrow> jsval \<Rightarrow> bool"

definition analyzeHistoricalContext ::
  "env \<Rightarrow> store \<Rightarrow> objectId \<Rightarrow> objectId \<Rightarrow> conversationData \<Rightarrow> historicalAnalysis" where
  "analyzeHistoricalContext e st userId' tenantId' conversationData =
     (if history_queries_answer e
      then let recentConversations =
                 find_recentConversations st (clock_historical e) userId' tenantId'
           in \<lparr> previousMood = calculatePreviousMood recentConversations,
                trendDirection = calculateTrendDirection recentConversations,
                recurringThemes = identifyRecurringThemes recentConversations,
                baselineComparison =
                  calculateBaselineComparison conversationData
                    (findOne_profile st userId' tenantId') \<rparr>
      else getDefaultHistoricalAnalysis)"

subsection \<open>Analysis of one conversation\<close>

text \<open>\<open>EmotionConversation.findById(conversationId)\<close>\<close>

definition findById :: "emotionConversation list \<Rightarrow> objectId \<Rightarrow> emotionConversation option" where
  "findById cs conversationId = find (\<lambda>c. conv_id c = conversationId) cs"

subsection \<open>Saving the analytics document\<close>

text \<open>\<open>v[k]\<close> of a value that is neither \<open>null\<close> nor \<open>undefined\<close>.\<close>

definition field_of :: "jsval \<Rightarrow> string \<Rightarrow> jsval" where
  "field_of v k = (case getp v k of Inl e \<Rightarrow> Undefined | Inr x \<Rightarrow> x)"

fun is_object :: "jsval \<Rightarrow> bool" where
  "is_object (JObj kvs) = True"
| "is_object v = False"

fun is_string :: "jsval \<Rightarrow> bool" where
  "is_string (JStr s) = True"
| "is_string v = False"

text \<open>A property that is absent or a finite number; absent or an array of strings.\<close>

fun absent_or_number :: "jsval \<Rightarrow> bool" where
  "absent_or_number Undefined = True"
| "absent_or_number (JNum (Fin q)) = True"
| "absent_or_number v = False"

fun absent_or_strings :: "jsval \<Rightarrow> bool" where
  "absent_or_strings Undefined = True"
| "absent_or_strings (JArr xs) = list_all is_string xs"
| "absent_or_strings v = False"

text \<open>
  The blocks of the document that come from the provider, with the types the schema
  declares: \<open>aiInsights.aiPerformance\<close> (numbers; \<open>helpfulness\<close> goes to the quality
  metrics), \<open>aiInsights.summary\<close> (arrays of strings) and the predictive insights (arrays
  of strings, and numbers in \<open>predictedOutcomes\<close>). Properties the schema does not declare
  are dropped.
\<close>

definition typed_aiPerformance :: "jsval \<Rightarrow> bool" where
  "typed_aiPerformance ap =
     (ap = Undefined
      \<or> (is_object ap
          \<and> list_all (\<lambda>k. absent_or_number (field_of ap k))
                [''responseRelevance'', ''empathyLevel'', ''questionQuality'',
                 ''contextualAwareness'', ''helpfulness'']))"

definition typed_summary :: "jsval \<Rightarrow> bool" where
  "typed_summary sm =
     (sm = Undefined
      \<or> (is_object sm
          \<and> list_all (\<lambda>k. absent_or_strings (field_of sm k))
                [''keyPoints'', ''concerns'', ''positiveAspects'', ''areasForImprovement'']))"

definition typed_predictiveInsights :: "jsval \<Rightarrow> bool" where
  "typed_predictiveInsights pr =
     (is_object pr
      \<and> list_all (\<lambda>k. absent_or_strings (field_of pr k))
            [''riskFactors'', ''improvementAreas'', ''successIndicators'',
             ''interventionRecommendations'', ''earlyWarningSignals'', ''opportunityAreas'']
      \<and> (field_of pr ''predictedOutcomes'' = Undefined
          \<or> (is_object (field_of pr ''predictedOutcomes'')
              \<and> list_all (\<lambda>k. absent_or_number (field_of (field_of pr ''predictedOutcomes'') k))
                    [''nextWeekMood'', ''nextWeekStress'', ''nextWeekEnergy'', ''confidence''])))"

definition typed_provider_blocks :: "jsval \<Rightarrow> jsval \<Rightarrow> bool" where
  "typed_provider_blocks aiInsights predictiveInsights =
     (typed_aiPerformance (field_of aiInsights ''aiPerformance'')
      \<and> typed_summary (field_of aiInsights ''summary'')
      \<and> typed_predictiveInsights predictiveInsights)"

definition baseline_numbers :: "baselineComparison \<Rightarrow> bool" where
  "baseline_numbers b =
     (moodVsBaseline b \<noteq> None \<and> stressVsBaseline b \<noteq> None
      \<and> energyVsBaseline b \<noteq> None \<and> satisfactionVsBaseline b \<noteq> None)"

text \<open>
  Whether \<open>analytics.save()\<close> is accepted. The schema declares \<open>recommendations\<close> (and
  \<open>actionTracking.recommendationsGiven\<close>, which holds one entry for each
  recommendation) as \<open>[{type: String, priority: String, ...}]\<close>; the schema library takes
  the key \<open>type\<close> for the element's type, so the path is an array of strings and a
  recommendation object fails the cast: a document with a recommendation is rejected. A
  number path rejects \<open>NaN\<close>, which the comparison with the baseline may hold. The
  provider's blocks are accepted when they have the schema's types; what the casting
  makes of other values is the environment's answer.
\<close>

definition schema_accepts :: "env \<Rightarrow> conversationAnalytics \<Rightarrow> jsval \<Rightarrow> jsval \<Rightarrow> bool" where
  "schema_accepts e doc aiInsights predictiveInsights =
     (a_recommendations doc = []
      \<and> baseline_numbers (baselineComparison (a_historicalAnalysis doc))
      \<and> (typed_provider_blocks aiInsights predictiveInsights
          \<or> untyped_blocks_cast e aiInsights predictiveInsights))"

definition analyzeConversation ::
  "env \<Rightarrow> store \<Rightarrow> objectId \<Rightarrow> objectId \<Rightarrow> objectId
     \<Rightarrow> js_error + (conversationAnalytics \<times> store)" where
  "analyzeConversation e st conversationId tenantId' userId' =
     (case findById (conversations st) conversationId of
        None \<Rightarrow> Inl (Error ''Conversation not found'')
      | Some conversation \<Rightarrow>
          (let conversationData = extractConversationData conversation;
               aiInsights = generateAIInsights (aiInsights_response e);
               metrics' = calculateMetrics conversationData;
               emotionalInsights' = analyzeEmotionalContent conversationData;
               topics = analyzeTopics (ArgObject (ItemConversationData conversationData))
           in ebind (calculateQualityMetrics conversationData aiInsights) (\<lambda>qualityMetrics'.
                let recommendations' = generateRecommendations conversationData aiInsights;
                    contextualAnalysis' = analyzeContextualFactors (clock_contextual e) conversation;
                    historicalAnalysis' =
                      analyzeHistoricalContext e st userId' tenantId' conversationData;
                    predictiveInsights = generatePredictiveInsights (predictive_response e);
                    doc = \<lparr> a_tenantId = tenantId', a_userId = userId',
                            a_conversationId = conversationId,
                            a_date = clock_document e,
                            a_conversationType = conversationType conversation,
                            a_metrics = metrics',
                            a_emotionalInsights = emotionalInsights',
                            a_topics = topics,
                            a_qualityMetrics = qualityMetrics',
                            a_recommendations = recommendations',
                            a_contextualAnalysis = contextualAnalysis',
                            a_historicalAnalysis = historicalAnalysis' \<rparr>
                in if schema_accepts e doc aiInsights predictiveInsights
                   then Inr (doc, st\<lparr> analytics := analytics st @ [doc] \<rparr>)
                   else Inl SaveRejected)))"

subsection \<open>Dashboard\<close>

record overview_block =
  totalConversations :: nat
  avgWellBeing :: rat
  avgStress :: rat
  avgSatisfaction :: rat
  avgEngagement :: rat

record timeRange_entry =
  tr_date :: jsdate
  tr_wellBeing :: rat
  tr_stress :: rat
  tr_satisfaction :: rat

record recommendation_count =
  rc_type :: string
  rc_priority :: "string option"
  rc_count :: rat

record dashboard =
  overview :: overview_block
  emotionalTrends :: "(string \<times> rat) list"
  topTopics :: "(string \<times> rat) list"
  recommendations :: "recommendation_count list"
  timeRange :: "timeRange_entry list"

definition getEmptyAnalytics :: dashboard where
  "getEmptyAnalytics =
     \<lparr> overview = \<lparr> totalConversations = 0, avgWellBeing = 0, avgStress = 0,
                      avgSatisfaction = 0, avgEngagement = 0 \<rparr>,
       emotionalTrends = [], topTopics = [], recommendations = [], timeRange = [] \<rparr>"

record average_metrics =
  am_wellBeingScore :: rat
  am_stressLevel :: rat
  am_satisfactionLevel :: rat
  am_engagement :: rat

definition calculateAverageMetrics :: "conversationAnalytics list \<Rightarrow> average_metrics" where
  "calculateAverageMetrics as =
     (let totals = foldl (\<lambda>acc curr.
                     \<lparr> am_wellBeingScore = fadd (am_wellBeingScore acc) (m_wellBeingScore (a_metrics curr)),
                       am_stressLevel = fadd (am_stressLevel acc) (m_stressLevel (a_metrics curr)),
                       am_satisfactionLevel =
                         fadd (am_satisfactionLevel acc) (m_satisfactionLevel (a_metrics curr)),
                       am_engagement = fadd (am_engagement acc) (engagement (a_qualityMetrics curr)) \<rparr>)
                   \<lparr> am_wellBeingScore = 0, am_stressLevel = 0, am_satisfactionLevel = 0,
                     am_engagement = 0 \<rparr> as
      in \<lparr> am_wellBeingScore = fdiv (am_wellBeingScore totals) (of_nat (length as)),
           am_stressLevel = fdiv (am_stressLevel totals) (of_nat (length as)),
           am_satisfactionLevel = fdiv (am_satisfactionLevel totals) (of_nat (length as)),
           am_engagement = fdiv (am_engagement totals) (of_nat (length as)) \<rparr>)"

definition calculateEmotionalTrends :: "conversationAnalytics list \<Rightarrow> (string \<times> rat) list" where
  "calculateEmotionalTrends as =
     (let emotions = foldl (\<lambda>acc a. foldl (\<lambda>acc' em. count_add (fst em) (snd em) acc') acc
                                        (dominantEmotions (a_emotionalInsights a)))
                           [] as
      in take 5 (sort_desc snd (Object_entries emotions)))"

definition calculateTopTopics :: "conversationAnalytics list \<Rightarrow> (string \<times> rat) list" where
  "calculateTopTopics as =
     (let topics = foldl (\<lambda>acc a. foldl (\<lambda>acc' t. count_add (topic t) (frequency t) acc') acc
                                      (a_topics a))
                         [] as
      in take 5 (sort_desc snd (Object_entries topics)))"

text \<open>\<open>s.split('-')\<close>\<close>

fun split_on :: "char \<Rightarrow> string \<Rightarrow> string list" where
  "split_on d [] = [[]]"
| "split_on d (c # cs) =
     (if c = d then [] # split_on d cs
      else (case split_on d cs of [] \<Rightarrow> [[c]] | p # ps \<Rightarrow> (c # p) # ps))"

definition aggregateRecommendations :: "conversationAnalytics list \<Rightarrow> recommendation_count list" where
  "aggregateRecommendations as =
     (let recs = foldl (\<lambda>acc a. foldl (\<lambda>acc' r. count_add (rec_type r @ ''-'' @ priority r) 1 acc')
                                    acc (a_recommendations a))
                       [] as
      in sort_desc rc_count
           (map (\<lambda>kc. case split_on CHR ''-'' (fst kc) of
                        [] \<Rightarrow> \<lparr> rc_type = [], rc_priority = None, rc_count = snd kc \<rparr>
                      | [t] \<Rightarrow> \<lparr> rc_type = t, rc_priority = None, rc_count = snd kc \<rparr>
                      | t # p # _ \<Rightarrow> \<lparr> rc_type = t, rc_priority = Some p, rc_count = snd kc \<rparr>)
                (Object_entries recs)))"

definition aggregateAnalytics :: "conversationAnalytics list \<Rightarrow> dashboard" where
  "aggregateAnalytics as =
     (if length as = 0 then getEmptyAnalytics
      else let avgMetrics = calculateAverageMetrics as
           in \<lparr> overview = \<lparr> totalConversations = length as,
                               avgWellBeing = am_wellBeingScore avgMetrics,
                               avgStress = am_stressLevel avgMetrics,
                               avgSatisfaction = am_satisfactionLevel avgMetrics,
                               avgEngagement = am_engagement avgMetrics \<rparr>,
                emotionalTrends = calculateEmotionalTrends as,
                topTopics = calculateTopTopics as,
                recommendations = aggregateRecommendations as,
                timeRange = map (\<lambda>a. \<lparr> tr_date = a_date a,
                                         tr_wellBeing = m_wellBeingScore (a_metrics a),
                                         tr_stress = m_stressLevel (a_metrics a),
                                         tr_satisfaction = m_satisfactionLevel (a_metrics a) \<rparr>) as \<rparr>)"

text \<open>
  The \<open>timeRange\<close> argument as the service reads it: a rolling window of
  \<open>parseInt(timeRange.replace('d', ''))\<close> days before the time of the call (\<open>Days\<close>, a day
  being 24 hours), or an object with a start and an end date (\<open>Range\<close>). A string without
  a number and an invalid date are not modelled.
\<close>

datatype timeRange_arg = Days int | Range jsdate jsdate

text \<open>\<open>ConversationAnalytics.find({tenantId, date: {...}}).sort({date: -1})\<close>\<close>

definition find_analytics ::
  "store \<Rightarrow> int \<Rightarrow> objectId \<Rightarrow> timeRange_arg \<Rightarrow> conversationAnalytics list" where
  "find_analytics st nowMs tenantId' tr =
     sort_key (\<lambda>a. - getTime (a_date a))
       (filter (\<lambda>a. a_tenantId a = tenantId'
                    \<and> (case tr of
                          Range startDate endDate \<Rightarrow>
                            getTime (a_date a) \<ge> getTime startDate
                            \<and> getTime (a_date a) \<le> getTime endDate
                        | Days n \<Rightarrow> getTime (a_date a) \<ge> nowMs - n * 86400000))
               (analytics st))"

definition getDashboardAnalytics ::
  "store \<Rightarrow> int \<Rightarrow> objectId \<Rightarrow> timeRange_arg \<Rightarrow> dashboard" where
  "getDashboardAnalytics st nowMs tenantId' tr =
     aggregateAnalytics (find_analytics st nowMs tenantId' tr)"

section \<open>The emotion-conversation routes\<close>

text \<open>
  What the surroundings answer while one request is handled: the clock, the session
  identifier \<open>uuidv4()\<close> draws, the provider's answers, the conversion of strings to
  numbers, and what the schema's casting makes, when the document is saved, of values
  the service returns that are not of the schema's types (\<open>None\<close>, \<open>False\<close>: validation
  fails and \<open>save\<close> rejects).
\<close>

record route_env =
  r_now :: jsdate
  r_uuid :: string
  r_conv :: "jsval \<Rightarrow> js_error + jsnum"
  r_emotion_response :: llm_outcome
  r_overall_response :: llm_outcome
  r_insights_response :: llm_outcome
  r_cast_emotionAnalysis :: "emotionAnalysis_result \<Rightarrow> emotionAnalysis option"
  r_cast_completion :: "overallEmotion_result \<Rightarrow> insights_result \<Rightarrow> (overallEmotion \<times> insights) option"
  r_emotionAnalytics_accepted :: bool

datatype 'a http = Status400 | Status404 | Status500 | Status200 'a | Status201 'a

subsection \<open>What the schema stores of the service's results\<close>

fun string_of :: "jsval \<Rightarrow> string option" where
  "string_of (JStr s) = Some s"
| "string_of v = None"

fun strings_of :: "jsval \<Rightarrow> string list option" where
  "strings_of (JArr xs) = (if list_all is_string xs then Some (map (\<lambda>x. case x of JStr s \<Rightarrow> s | _ \<Rightarrow> []) xs) else None)"
| "strings_of v = None"

text \<open>A number within the bounds the schema sets.\<close>

fun number_within :: "rat \<Rightarrow> rat \<Rightarrow> jsnum \<Rightarrow> rat option" where
  "number_within lo hi (Fin q) = (if lo \<le> q \<and> q \<le> hi then Some q else None)"
| "number_within lo hi n = None"

text \<open>
  A scoring result whose fields have the types and bounds of the schema (a non-empty
  string for the required \<open>primaryEmotion\<close>, numbers within 1 to 10, 0 to 1 and -1 to 1,
  arrays of strings) is stored as it is.
\<close>

definition typed_emotionAnalysis :: "emotionAnalysis_result \<Rightarrow> emotionAnalysis option" where
  "typed_emotionAnalysis r =
     Option.bind (string_of (primaryEmotion r)) (\<lambda>pe.
     Option.bind (number_within 1 10 (intensity r)) (\<lambda>i.
     Option.bind (number_within 0 1 (confidence r)) (\<lambda>c.
     Option.bind (strings_of (triggers r)) (\<lambda>ts.
     Option.bind (string_of (context_of r)) (\<lambda>cx.
     Option.bind (strings_of (needs r)) (\<lambda>ns.
     Option.bind (number_within (-1) 1 (sentiment r)) (\<lambda>s.
       if pe = [] then None
       else Some \<lparr> ea_primaryEmotion = pe, ea_intensity = i, ea_confidence = c,
                   ea_triggers = ts, ea_context = Some cx, ea_needs = ns,
                   ea_sentiment = Some s \<rparr>)))))))"

definition cast_emotionAnalysis :: "route_env \<Rightarrow> emotionAnalysis_result \<Rightarrow> emotionAnalysis option" where
  "cast_emotionAnalysis re r =
     (case typed_emotionAnalysis r of
        Some ea \<Rightarrow> Some ea
      | None \<Rightarrow> r_cast_emotionAnalysis re r)"

definition typed_overallEmotion :: "overallEmotion_result \<Rightarrow> overallEmotion option" where
  "typed_overallEmotion r =
     Option.bind (string_of (dominantEmotion r)) (\<lambda>de.
     Option.bind (number_within 1 10 (averageIntensity r)) (\<lambda>ai'.
     Option.bind (string_of (emotionalState r)) (\<lambda>es.
     Option.bind (number_within 1 10 (wellBeingScore r)) (\<lambda>wb.
     Option.bind (number_within 1 10 (stressLevel r)) (\<lambda>sl.
     Option.bind (number_within 1 10 (energyLevel r)) (\<lambda>el.
     Option.bind (number_within 1 10 (satisfaction r)) (\<lambda>sa.
       Some \<lparr> oe_dominantEmotion = Some de, oe_averageIntensity = Some ai',
              oe_emotionalState = Some es, oe_wellBeingScore = Some wb,
              oe_stressLevel = Some sl, oe_energyLevel = Some el,
              oe_satisfaction = Some sa \<rparr>)))))))"

definition typed_insights :: "insights_result \<Rightarrow> insights option" where
  "typed_insights r =
     Option.bind (strings_of (emotionalPatterns r)) (\<lambda>ep.
     Option.bind (strings_of (concerns r)) (\<lambda>co.
     Option.bind (strings_of (positiveFactors r)) (\<lambda>pf.
     Option.bind (strings_of (recommendations_of r)) (\<lambda>rc.
     Option.bind (strings_of (keyTopics r)) (\<lambda>kt.
       Some \<lparr> in_emotionalPatterns = ep, in_concerns = co, in_positiveFactors = pf,
              in_recommendations = rc, in_keyTopics = kt \<rparr>)))))"

definition typed_completion ::
  "overallEmotion_result \<Rightarrow> insights_result \<Rightarrow> (overallEmotion \<times> insights) option" where
  "typed_completion r i =
     Option.bind (typed_overallEmotion r) (\<lambda>oe.
     Option.bind (typed_insights i) (\<lambda>ins. Some (oe, ins)))"

definition cast_completion ::
  "route_env \<Rightarrow> overallEmotion_result \<Rightarrow> insights_result \<Rightarrow> (overallEmotion \<times> insights) option" where
  "cast_completion re r i =
     (case typed_completion r i of
        Some x \<Rightarrow> Some x
      | None \<Rightarrow> r_cast_completion re r i)"

text \<open>The snapshot (\<open>EmotionAnalytics\<close>) takes six numbers between 1 and 10 from the overall
  emotion and arrays of strings from the insights: typed results are accepted.\<close>

definition emotionAnalytics_accepted ::
  "route_env \<Rightarrow> overallEmotion_result \<Rightarrow> insights_result \<Rightarrow> bool" where
  "emotionAnalytics_accepted re r i =
     (typed_completion r i \<noteq> None \<or> r_emotionAnalytics_accepted re)"

subsection \<open>Reading and writing conversations\<close>

text \<open>
  \<open>conversation.save()\<close> of a document read from the store sends the changes made to it,
  addressed by the document's \<open>_id\<close>: for the respond route the push of one question, for
  the complete route the new overall emotion, insights, status and completion time.
\<close>

definition push_question ::
  "objectId \<Rightarrow> question \<Rightarrow> emotionConversation list \<Rightarrow> emotionConversation list" where
  "push_question cid q cs =
     map (\<lambda>d. if conv_id d = cid then d\<lparr> questions := questions d @ [q] \<rparr> else d) cs"

definition set_completion ::
  "objectId \<Rightarrow> overallEmotion \<Rightarrow> insights \<Rightarrow> jsdate \<Rightarrow> emotionConversation list
     \<Rightarrow> emotionConversation list" where
  "set_completion cid oe ins now cs =
     map (\<lambda>d. if conv_id d = cid
               then d\<lparr> overallEmotion := oe, insights := ins, status := completed,
                       completedAt := Some now \<rparr>
               else d) cs"

text \<open>The identifier the store gives a new document: one that no stored document has.\<close>

definition new_id :: "emotionConversation list \<Rightarrow> objectId" where
  "new_id cs = Suc (foldl max 0 (map conv_id cs))"

text \<open>\<open>findOne({sessionId, tenantId, userId, status: 'in_progress'})\<close>\<close>

definition findOne_in_progress ::
  "store \<Rightarrow> string \<Rightarrow> objectId \<Rightarrow> objectId \<Rightarrow> emotionConversation option" where
  "findOne_in_progress st sessionId' tenantId' userId' =
     find (\<lambda>c. sessionId c = sessionId' \<and> tenantId c = tenantId' \<and> userId c = userId'
               \<and> status c = in_progress)
          (conversations st)"

subsection \<open>Start\<close>

text \<open>The body of \<open>POST /start\<close>: \<open>conversationType\<close> is \<open>None\<close> when it is none of the four
  types; \<open>questions\<close> is absent (\<open>None\<close>) or a list of question texts, or is not an array.\<close>

datatype questions_field = Questions "string list" | NotAnArray

record start_body =
  sb_conversationType :: "conversationType option"
  sb_questions :: "questions_field option"

text \<open>\<open>POST /start\<close>. The schema's unique index on \<open>sessionId\<close> rejects a session identifier
  that is stored already. The response carries the session and conversation identifiers
  (and the question texts, left out).\<close>

definition start ::
  "route_env \<Rightarrow> store \<Rightarrow> objectId \<Rightarrow> objectId \<Rightarrow> start_body
     \<Rightarrow> (string \<times> objectId) http \<times> store" where
  "start re st tenantId' userId' body =
     (case sb_conversationType body of
        None \<Rightarrow> (Status400, st)
      | Some ct \<Rightarrow>
          if sb_questions body = Some NotAnArray then (Status400, st)
          else if r_uuid re \<in> set (map sessionId (conversations st)) then (Status500, st)
          else
            let conversation =
                  \<lparr> conv_id = new_id (conversations st), tenantId = tenantId', userId = userId',
                    sessionId = r_uuid re, conversationType = ct, questions = [],
                    overallEmotion = \<lparr> oe_dominantEmotion = None, oe_averageIntensity = None,
                                       oe_emotionalState = None, oe_wellBeingScore = None,
                                       oe_stressLevel = None, oe_energyLevel = None,
                                       oe_satisfaction = None \<rparr>,
                    insights = \<lparr> in_emotionalPatterns = [], in_concerns = [],
                                 in_positiveFactors = [], in_recommendations = [],
                                 in_keyTopics = [] \<rparr>,
                    status = in_progress, createdAt = r_now re, completedAt = None,
                    contextualFactors = None \<rparr>
            in (Status201 (r_uuid re, conv_id conversation),
                st\<lparr> conversations := conversations st @ [conversation] \<rparr>))"

subsection \<open>Respond\<close>

record respond_body =
  b_questionId :: "string option"
  b_questionText :: "string option"
  b_userResponse :: "string option"

text \<open>\<open>body(...).notEmpty()\<close>\<close>

definition notEmpty :: "string option \<Rightarrow> bool" where
  "notEmpty x = (case x of None \<Rightarrow> False | Some s \<Rightarrow> s \<noteq> [])"

text \<open>
  \<open>POST /:sessionId/respond\<close> has two parts, with the wait for the provider between them,
  during which other requests are handled. The first part validates the body and looks
  the conversation up: it answers (\<open>Inl\<close>) or holds the document it found (\<open>Inr\<close>).
\<close>

definition respond_lookup ::
  "store \<Rightarrow> objectId \<Rightarrow> objectId \<Rightarrow> string \<Rightarrow> respond_body
     \<Rightarrow> (emotionAnalysis_result \<times> nat) http + emotionConversation" where
  "respond_lookup st tenantId' userId' sessionId' body =
     (if \<not> (notEmpty (b_questionId body) \<and> notEmpty (b_questionText body)
             \<and> notEmpty (b_userResponse body))
      then Inl Status400
      else
        (case findOne_in_progress st sessionId' tenantId' userId' of
           None \<Rightarrow> Inl Status404
         | Some conversation \<Rightarrow> Inr conversation))"

text \<open>
  The second part, once the provider has answered, on the store as it is by then: the
  question is pushed on the document held and the document is saved. The count in the
  response is that of the document held.
\<close>

definition respond_save ::
  "route_env \<Rightarrow> store \<Rightarrow> emotionConversation \<Rightarrow> respond_body
     \<Rightarrow> (emotionAnalysis_result \<times> nat) http \<times> store" where
  "respond_save re st conversation body =
     (let emotionAnalysis' = analyzeEmotion (r_conv re) (r_emotion_response re) ''workplace''
      in (case cast_emotionAnalysis re emotionAnalysis' of
            None \<Rightarrow> (Status500, st)
          | Some ea \<Rightarrow>
              let q = \<lparr> questionId = (case b_questionId body of None \<Rightarrow> [] | Some x \<Rightarrow> x),
                        questionText = (case b_questionText body of None \<Rightarrow> [] | Some x \<Rightarrow> x),
                        userResponse = (case b_userResponse body of None \<Rightarrow> [] | Some x \<Rightarrow> x),
                        emotionAnalysis = ea,
                        timestamp = r_now re \<rparr>
              in (Status200 (emotionAnalysis', length (questions conversation @ [q])),
                  st\<lparr> conversations :=
                        push_question (conv_id conversation) q (conversations st) \<rparr>)))"


subsection \<open>Complete\<close>

text \<open>\<open>POST /:sessionId/complete\<close>, in two parts likewise: the lookup, and, after the two
  answers of the provider, the saving of the conversation and then of the snapshot (a
  collection none of these routes reads, so that the two writes are one part here).\<close>

definition complete_lookup ::
  "store \<Rightarrow> objectId \<Rightarrow> objectId \<Rightarrow> string
     \<Rightarrow> (overallEmotion_result \<times> insights_result) http + emotionConversation" where
  "complete_lookup st tenantId' userId' sessionId' =
     (case findOne_in_progress st sessionId' tenantId' userId' of
        None \<Rightarrow> Inl Status404
      | Some conversation \<Rightarrow> Inr conversation)"

definition complete_save ::
  "route_env \<Rightarrow> store \<Rightarrow> emotionConversation \<Rightarrow> objectId \<Rightarrow> objectId
     \<Rightarrow> (overallEmotion_result \<times> insights_result) http \<times> store" where
  "complete_save re st conversation tenantId' userId' =
     (let overallEmotion' = analyzeOverallEmotion (r_conv re) (r_overall_response re);
          insights' = generateEmotionalInsights (r_insights_response re)
      in (case cast_completion re overallEmotion' insights' of
            None \<Rightarrow> (Status500, st)
          | Some (oe, ins) \<Rightarrow>
              let st' = st\<lparr> conversations :=
                              set_completion (conv_id conversation) oe ins (r_now re)
                                (conversations st) \<rparr>
              in if emotionAnalytics_accepted re overallEmotion' insights'
                 then (Status200 (overallEmotion', insights'),
                       st'\<lparr> emotionAnalytics := emotionAnalytics st' @
                             [\<lparr> ean_tenantId = tenantId', ean_userId = userId',
                                ean_date = r_now re,
                                ean_emotionalMetrics = overallEmotion',
                                ean_emotionalInsights = insights',
                                ean_conversationId = conv_id conversation \<rparr>] \<rparr>)
                 else (Status500, st')))"


subsection \<open>Requests in flight\<close>

text \<open>
  The server handles the parts of requests one at a time, in any order that keeps the
  two parts of a request in theirs. Between its two parts a request is in flight: it
  holds the document it found and waits for the provider.
\<close>

datatype handler =
    RespondHandler route_env emotionConversation respond_body
  | CompleteHandler route_env emotionConversation objectId objectId


record server =
  sv_store :: store
  sv_in_flight :: "handler list"

text \<open>A request arrives (with the tenant and user the middleware resolved), or the
  provider answers the request in flight at a position of the list.\<close>

datatype event =
    Arrive_start route_env objectId objectId start_body
  | Arrive_respond route_env objectId objectId string respond_body
  | Arrive_complete route_env objectId objectId string
  | Resume nat

fun resume :: "store \<Rightarrow> handler \<Rightarrow> store" where
  "resume st (RespondHandler re c body) = snd (respond_save re st c body)"
| "resume st (CompleteHandler re c t u) = snd (complete_save re st c t u)"

fun step :: "server \<Rightarrow> event \<Rightarrow> server" where
  "step sv (Arrive_start re t u body) = sv\<lparr> sv_store := snd (start re (sv_store sv) t u body) \<rparr>"
| "step sv (Arrive_respond re t u sid body) =
     (case respond_lookup (sv_store sv) t u sid body of
        Inl answer \<Rightarrow> sv
      | Inr c \<Rightarrow> sv\<lparr> sv_in_flight := sv_in_flight sv @ [RespondHandler re c body] \<rparr>)"
| "step sv (Arrive_complete re t u sid) =
     (case complete_lookup (sv_store sv) t u sid of
        Inl answer \<Rightarrow> sv
      | Inr c \<Rightarrow> sv\<lparr> sv_in_flight := sv_in_flight sv @ [CompleteHandler re c t u] \<rparr>)"
| "step sv (Resume i) =
     (if i < length (sv_in_flight sv)
      then \<lparr> sv_store = resume (sv_store sv) (sv_in_flight sv ! i),
             sv_in_flight = take i (sv_in_flight sv) @ drop (Suc i) (sv_in_flight sv) \<rparr>
      else sv)"

definition run :: "server \<Rightarrow> event list \<Rightarrow> server" where
  "run sv evs = foldl step sv evs"


section \<open>The properties' vocabulary and example data\<close>


text \<open>A field of the provider's payload that is absent, \<open>null\<close> or a number.\<close>

fun numeric_or_absent :: "jsval \<Rightarrow> bool" where
  "numeric_or_absent Undefined = True"
| "numeric_or_absent Null = True"
| "numeric_or_absent (JNum n) = True"
| "numeric_or_absent v = False"

text \<open>\<open>insights.predictedOutcomes[k]\<close> of a value the predictive call returned.\<close>

definition predictedOutcome :: "jsval \<Rightarrow> string \<Rightarrow> js_error + jsval" where
  "predictedOutcome v k = ebind (getp v ''predictedOutcomes'') (\<lambda>po. getp po k)"

text \<open>A provider payload whose intensity is an object rather than a number:
  \<open>{"primaryEmotion": "stress", "intensity": {"value": 8, "scale": "1-10"}}\<close>.\<close>

definition payload_intensity_object :: jsval where
  "payload_intensity_object =
     JObj [ (''primaryEmotion'', JStr ''stress''),
            (''intensity'', JObj [(''value'', JNum (Fin 8)), (''scale'', JStr ''1-10'')]) ]"

text \<open>\<open>{"dominantEmotion": "stress", "wellBeingScore": {"value": 3}, "stressLevel": 8}\<close>\<close>

definition payload_wellBeing_object :: jsval where
  "payload_wellBeing_object =
     JObj [ (''dominantEmotion'', JStr ''stress''),
            (''wellBeingScore'', JObj [(''value'', JNum (Fin 3))]),
            (''stressLevel'', JNum (Fin 8)) ]"

text \<open>\<open>{"riskFactors": [], "predictedOutcomes": {"nextWeekMood": 15, "nextWeekStress": -2,
  "nextWeekEnergy": 5, "confidence": 3}}\<close>\<close>

definition payload_outcomes_out_of_range :: jsval where
  "payload_outcomes_out_of_range =
     JObj [ (''riskFactors'', JArr []),
            (''predictedOutcomes'',
               JObj [ (''nextWeekMood'', JNum (Fin 15)), (''nextWeekStress'', JNum (Fin (-2))),
                      (''nextWeekEnergy'', JNum (Fin 5)), (''confidence'', JNum (Fin 3)) ]) ]"

text \<open>A Monday in January, at 3 in the night and at 2 in the afternoon.\<close>

definition monday_3am :: jsdate where
  "monday_3am = \<lparr> getTime = 1000000000, getHours = 3, getDay = 1, getMonth = 0 \<rparr>"

definition monday_2pm :: jsdate where
  "monday_2pm = \<lparr> getTime = 1039600000, getHours = 14, getDay = 1, getMonth = 0 \<rparr>"

definition no_insights :: insights where
  "no_insights = \<lparr> in_emotionalPatterns = [], in_concerns = [], in_positiveFactors = [],
                   in_recommendations = [], in_keyTopics = [] \<rparr>"

text \<open>An overall emotion with the given well-being score and stress level.\<close>

definition overall_with :: "rat \<Rightarrow> rat \<Rightarrow> overallEmotion" where
  "overall_with wb sl =
     \<lparr> oe_dominantEmotion = Some ''stress'', oe_averageIntensity = Some 6,
       oe_emotionalState = Some ''tense'', oe_wellBeingScore = Some wb,
       oe_stressLevel = Some sl, oe_energyLevel = Some 5, oe_satisfaction = Some 5 \<rparr>"

definition work_question :: question where
  "work_question =
     \<lparr> questionId = ''q1'', questionText = ''How do you feel about your work today?'',
       userResponse = ''My work at the office: one job meeting after another'',
       emotionAnalysis = \<lparr> ea_primaryEmotion = ''stress'', ea_intensity = 8,
                           ea_confidence = 3/4, ea_triggers = [''deadline''],
                           ea_context = Some ''workplace'', ea_needs = [''rest''],
                           ea_sentiment = Some (-1/2) \<rparr>,
       timestamp = monday_3am \<rparr>"

text \<open>A completed conversation of user 9 of tenant 2: stress 8, well-being 3, and a user
  message with four keywords of the topic \<open>work\<close> (work, office, job, meeting).\<close>

definition work_conversation :: emotionConversation where
  "work_conversation =
     \<lparr> conv_id = 7, tenantId = 2, userId = 9, sessionId = ''session-7'',
       conversationType = daily, questions = [work_question],
       overallEmotion = overall_with 3 8, insights = no_insights, status = completed,
       createdAt = monday_3am, completedAt = Some monday_3am, contextualFactors = None \<rparr>"

text \<open>An earlier completed conversation of the same user, with well-being \<open>wb\<close>.\<close>

definition earlier_conversation :: "objectId \<Rightarrow> int \<Rightarrow> rat \<Rightarrow> emotionConversation" where
  "earlier_conversation i t wb =
     \<lparr> conv_id = i, tenantId = 2, userId = 9, sessionId = ''earlier'',
       conversationType = daily, questions = [],
       overallEmotion = overall_with wb 5, insights = no_insights, status = completed,
       createdAt = \<lparr> getTime = t, getHours = 9, getDay = 0, getMonth = 0 \<rparr>,
       completedAt = None, contextualFactors = None \<rparr>"

definition work_store :: store where
  "work_store = \<lparr> conversations = [work_conversation], analytics = [], emotionAnalytics = [],
                  profiles = [] \<rparr>"

text \<open>A completed conversation of the same user with well-being 6 and stress 5, for which
  no recommendation rule fires, created on that Monday at 3 in the night.\<close>

definition calm_conversation :: emotionConversation where
  "calm_conversation =
     \<lparr> conv_id = 8, tenantId = 2, userId = 9, sessionId = ''session-8'',
       conversationType = daily, questions = [work_question],
       overallEmotion = overall_with 6 5, insights = no_insights, status = completed,
       createdAt = monday_3am, completedAt = Some monday_3am, contextualFactors = None \<rparr>"

definition calm_store :: store where
  "calm_store = \<lparr> conversations = [calm_conversation], analytics = [], emotionAnalytics = [],
                  profiles = [] \<rparr>"

text \<open>A conversation of that user that is in progress, with no question yet, and a store
  with it and a completed one.\<close>

definition open_conversation :: emotionConversation where
  "open_conversation =
     \<lparr> conv_id = 9, tenantId = 2, userId = 9, sessionId = ''session-9'',
       conversationType = daily, questions = [],
       overallEmotion = \<lparr> oe_dominantEmotion = None, oe_averageIntensity = None,
                          oe_emotionalState = None, oe_wellBeingScore = None,
                          oe_stressLevel = None, oe_energyLevel = None,
                          oe_satisfaction = None \<rparr>,
       insights = no_insights, status = in_progress,
       createdAt = monday_3am, completedAt = None, contextualFactors = None \<rparr>"

definition open_store :: store where
  "open_store = \<lparr> conversations = [calm_conversation, open_conversation], analytics = [],
                  emotionAnalytics = [], profiles = [] \<rparr>"

text \<open>Four conversations, newest first, whose well-being scores are the doubles 6, 1.1, 7.9
  and 4.5: the exact mean of the first three exceeds 5, the mean in double arithmetic
  is 5.\<close>

definition rounding_history :: "emotionConversation list" where
  "rounding_history =
     [ earlier_conversation 4 400 6,
       earlier_conversation 3 300 (double_of (11/10)),
       earlier_conversation 2 200 (double_of (79/10)),
       earlier_conversation 1 100 (9/2) ]"

text \<open>Two conversations of user 9 of tenant 2, well-being 4 and then 8.\<close>

definition history_4_8 :: store where
  "history_4_8 =
     \<lparr> conversations = [ earlier_conversation 6 900000000 4,
                         work_conversation\<lparr> overallEmotion := overall_with 8 5 \<rparr> ],
       analytics = [], emotionAnalytics = [], profiles = [] \<rparr>"

text \<open>An analysis on that Monday afternoon during which the provider fails twice (and a
  schema that casts no block that is not of its types).\<close>

definition afternoon_env :: env where
  "afternoon_env =
     \<lparr> clock_contextual = monday_2pm, clock_historical = 1039600000,
       clock_document = monday_2pm, aiInsights_response = CallThrows,
       predictive_response = Unparsable, history_queries_answer = True,
       untyped_blocks_cast = (\<lambda>a p. False) \<rparr>"

text \<open>A request during which the provider fails, with a schema that casts no value that is
  not of its types.\<close>

definition failing_route_env :: route_env where
  "failing_route_env =
     \<lparr> r_now = monday_2pm, r_uuid = ''session-10'', r_conv = (\<lambda>v. Inr NaN),
       r_emotion_response = CallThrows, r_overall_response = CallThrows,
       r_insights_response = CallThrows, r_cast_emotionAnalysis = (\<lambda>r. None),
       r_cast_completion = (\<lambda>r i. None), r_emotionAnalytics_accepted = False \<rparr>"



definition full_body :: respond_body where
  "full_body = \<lparr> b_questionId = Some ''q2'', b_questionText = Some ''And now?'',
                 b_userResponse = Some ''Fine'' \<rparr>"

text \<open>An analytics document of tenant 2.\<close>

definition tenant2_analytics :: conversationAnalytics where
  "tenant2_analytics =
     \<lparr> a_tenantId = 2, a_userId = 9, a_conversationId = 8, a_date = monday_2pm,
       a_conversationType = daily,
       a_metrics = calculateMetrics (extractConversationData calm_conversation),
       a_emotionalInsights = analyzeEmotionalContent (extractConversationData calm_conversation),
       a_topics = [],
       a_qualityMetrics = \<lparr> engagement = 5, openness = 2, trust = 7, q_satisfaction = 5 \<rparr>,
       a_recommendations = [],
       a_contextualAnalysis = analyzeContextualFactors monday_2pm calm_conversation,
       a_historicalAnalysis = getDefaultHistoricalAnalysis \<rparr>"

text \<open>A store whose only analytics document belongs to tenant 2 and dates from that
  Monday afternoon.\<close>

definition tenant2_store :: store where
  "tenant2_store =
     \<lparr> conversations = [calm_conversation], analytics = [tenant2_analytics],
       emotionAnalytics = [], profiles = [] \<rparr>"

section \<open>Properties\<close>

subsection \<open>Clamping of the provider's numbers\<close>

lemma Math_clamp_range:
  "lo \<le> hi \<Longrightarrow> n \<noteq> NaN \<Longrightarrow> in_range lo hi (Math_max (Fin lo) (Math_min (Fin hi) n))"
  by (cases n) (auto simp: Math_max_def Math_min_def in_range_def)

lemma Math_clamp_NaN: "Math_max (Fin lo) (Math_min (Fin hi) NaN) = NaN"
  by (simp add: Math_max_def Math_min_def)

text \<open>A clamped field is within its bounds or is \<open>NaN\<close>.\<close>

lemma clamp_or_NaN_or_range:
  assumes "lo \<le> hi" and "clamp_or conv lo hi v d = Inr n"
  shows "n = NaN \<or> in_range lo hi n"
proof -
  from assms(2) obtain m where m: "ToNumber conv (js_or v (JNum (Fin d))) = Inr m"
    and n: "n = Math_max (Fin lo) (Math_min (Fin hi) m)"
    by (auto simp: clamp_or_def split: sum.splits)
  show ?thesis
  proof (cases "m = NaN")
    case True
    with n show ?thesis by (simp add: Math_clamp_NaN)
  next
    case False
    with n assms(1) show ?thesis by (simp add: Math_clamp_range)
  qed
qed

text \<open>A field that is absent, \<open>null\<close> or a number (in range or not) is clamped into its
  bounds.\<close>

lemma clamp_or_of_number:
  assumes "lo \<le> hi" and "v = Undefined \<or> v = Null \<or> (\<exists>m. v = JNum m)"
  shows "\<exists>n. clamp_or conv lo hi v d = Inr n \<and> in_range lo hi n"
proof -
  have "\<exists>m. ToNumber conv (js_or v (JNum (Fin d))) = Inr m \<and> m \<noteq> NaN"
    using assms(2) by (cases v) (auto simp: js_or_def)
  then obtain m where "ToNumber conv (js_or v (JNum (Fin d))) = Inr m" and "m \<noteq> NaN"
    by blast
  then show ?thesis
    using assms(1) by (simp add: clamp_or_def Math_clamp_range)
qed

text \<open>Whatever the payload, each numeric field of the per-response scoring is within its
  bounds or is \<open>NaN\<close>.\<close>

lemma analyzeEmotion_NaN_or_range:
  "(intensity (analyzeEmotion conv resp ctx) = NaN
      \<or> in_range 1 10 (intensity (analyzeEmotion conv resp ctx)))
   \<and> (confidence (analyzeEmotion conv resp ctx) = NaN
      \<or> in_range 0 1 (confidence (analyzeEmotion conv resp ctx)))
   \<and> (sentiment (analyzeEmotion conv resp ctx) = NaN
      \<or> in_range (-1) 1 (sentiment (analyzeEmotion conv resp ctx)))"
proof (cases "\<exists>v r. resp = Parsed v \<and> analyzeEmotion_build conv v ctx = Inr r")
  case False
  then have "analyzeEmotion conv resp ctx = analyzeEmotion_default ctx"
    by (cases resp) (auto simp: analyzeEmotion_def split: sum.splits)
  then show ?thesis by (simp add: analyzeEmotion_default_def in_range_def)
next
  case True
  then obtain v r where v: "resp = Parsed v" and r: "analyzeEmotion_build conv v ctx = Inr r"
    by blast
  from r obtain i c s where
    "clamp_or conv 1 10 i 5 = Inr (intensity r)"
    "clamp_or conv 0 1 c (1/2) = Inr (confidence r)"
    "clamp_or conv (-1) 1 s 0 = Inr (sentiment r)"
    by (auto simp: analyzeEmotion_build_def ebind_def split: sum.splits)
  then have "(intensity r = NaN \<or> in_range 1 10 (intensity r))
      \<and> (confidence r = NaN \<or> in_range 0 1 (confidence r))
      \<and> (sentiment r = NaN \<or> in_range (-1) 1 (sentiment r))"
    using clamp_or_NaN_or_range [of 1 10 conv i 5 "intensity r"]
      clamp_or_NaN_or_range [of 0 1 conv c "1/2" "confidence r"]
      clamp_or_NaN_or_range [of "-1" 1 conv s 0 "sentiment r"]
    by simp
  with v r show ?thesis by (simp add: analyzeEmotion_def)
qed

text \<open>A payload whose three numeric fields are absent, \<open>null\<close> or numbers, in range or not,
  is scored within the bounds.\<close>

lemma analyzeEmotion_numeric_in_range:
  assumes "getp analysis ''intensity'' = Inr i" and "numeric_or_absent i"
    and "getp analysis ''confidence'' = Inr c" and "numeric_or_absent c"
    and "getp analysis ''sentiment'' = Inr s" and "numeric_or_absent s"
  shows "in_range 1 10 (intensity (analyzeEmotion conv (Parsed analysis) ctx))
       \<and> in_range 0 1 (confidence (analyzeEmotion conv (Parsed analysis) ctx))
       \<and> in_range (-1) 1 (sentiment (analyzeEmotion conv (Parsed analysis) ctx))"
proof -
  have num: "\<And>v. numeric_or_absent v \<Longrightarrow> v = Undefined \<or> v = Null \<or> (\<exists>m. v = JNum m)"
  proof -
    fix v show "numeric_or_absent v \<Longrightarrow> v = Undefined \<or> v = Null \<or> (\<exists>m. v = JNum m)"
      by (cases v) simp_all
  qed
  obtain i' where i': "clamp_or conv 1 10 i 5 = Inr i'" "in_range 1 10 i'"
    using clamp_or_of_number [of 1 10 i conv 5] num [OF assms(2)] by auto
  obtain c' where c': "clamp_or conv 0 1 c (1/2) = Inr c'" "in_range 0 1 c'"
    using clamp_or_of_number [of 0 1 c conv "1/2"] num [OF assms(4)] by auto
  obtain s' where s': "clamp_or conv (-1) 1 s 0 = Inr s'" "in_range (-1) 1 s'"
    using clamp_or_of_number [of "-1" 1 s conv 0] num [OF assms(6)] by auto
  have nothrow: "\<And>k. \<exists>x. getp analysis k = Inr x"
  proof -
    fix k show "\<exists>x. getp analysis k = Inr x"
      using assms(1) by (cases analysis) simp_all
  qed
  obtain pe t cx n where "getp analysis ''primaryEmotion'' = Inr pe"
    "getp analysis ''triggers'' = Inr t" "getp analysis ''context'' = Inr cx"
    "getp analysis ''needs'' = Inr n"
    using nothrow by metis
  with assms i' c' s' show ?thesis
    by (simp add: analyzeEmotion_def analyzeEmotion_build_def ebind_def)
qed

text \<open>
  C4. The claim: for every provider payload, the numeric fields of the per-response
  scoring and of the whole-conversation summary lie within their bounds. The code clamps
  a field that is a number, but a field that is an object is converted to \<open>NaN\<close>, which
  \<open>Math.min\<close> and \<open>Math.max\<close> hand through: at the payload
  \<open>{"primaryEmotion": "stress", "intensity": {"value": 8, "scale": "1-10"}}\<close> the returned
  intensity is \<open>NaN\<close>, and so is the well-being score of the summary at
  \<open>{"dominantEmotion": "stress", "wellBeingScore": {"value": 3}, "stressLevel": 8}\<close>.
\<close>

theorem scoring_returns_NaN_for_object_field:
  "intensity (analyzeEmotion conv (Parsed payload_intensity_object) ''workplace'') = NaN
   \<and> \<not> in_range 1 10 (intensity (analyzeEmotion conv (Parsed payload_intensity_object) ''workplace''))
   \<and> wellBeingScore (analyzeOverallEmotion conv (Parsed payload_wellBeing_object)) = NaN
   \<and> \<not> in_range 1 10 (wellBeingScore (analyzeOverallEmotion conv (Parsed payload_wellBeing_object)))"
  by (simp add: payload_intensity_object_def payload_wellBeing_object_def analyzeEmotion_def
      analyzeEmotion_build_def analyzeOverallEmotion_def analyzeOverallEmotion_build_def
      ebind_def clamp_or_def js_or_def Math_max_def Math_min_def in_range_def)

subsection \<open>Failure of the provider\<close>















subsection \<open>Predictive insights\<close>

text \<open>
  C6, as claimed: the predicted outcomes the predictive call returns are clamped to
  their ranges. They are not: at the payload with \<open>nextWeekMood\<close> 15 and \<open>confidence\<close> 3 the
  call returns 15 and 3.
\<close>

theorem predicted_outcomes_not_clamped:
  "predictedOutcome (generatePredictiveInsights (Parsed payload_outcomes_out_of_range))
       ''nextWeekMood'' = Inr (JNum (Fin 15))
   \<and> \<not> in_range 1 10 (Fin 15)
   \<and> predictedOutcome (generatePredictiveInsights (Parsed payload_outcomes_out_of_range))
       ''confidence'' = Inr (JNum (Fin 3))
   \<and> \<not> in_range 0 1 (Fin 3)"
  by (simp add: payload_outcomes_out_of_range_def generatePredictiveInsights_def
      predictedOutcome_def ebind_def in_range_def)

text \<open>
  C6, amended: the predictive call returns the provider's parsed payload as it is; when
  the call throws or the output does not parse it returns the default payload, whose
  predicted mood, stress and energy are 5 and whose confidence is 0.5, within their
  ranges.
\<close>

theorem predictive_insights_parsed_or_default:
  "generatePredictiveInsights (Parsed v) = v
   \<and> generatePredictiveInsights CallThrows = getDefaultPredictiveInsights
   \<and> generatePredictiveInsights Unparsable = getDefaultPredictiveInsights
   \<and> predictedOutcome getDefaultPredictiveInsights ''nextWeekMood'' = Inr (JNum (Fin 5))
   \<and> predictedOutcome getDefaultPredictiveInsights ''nextWeekStress'' = Inr (JNum (Fin 5))
   \<and> predictedOutcome getDefaultPredictiveInsights ''nextWeekEnergy'' = Inr (JNum (Fin 5))
   \<and> predictedOutcome getDefaultPredictiveInsights ''confidence'' = Inr (JNum (Fin (1/2)))
   \<and> in_range 1 10 (Fin 5) \<and> in_range 0 1 (Fin (1/2))"
  by (simp add: generatePredictiveInsights_def getDefaultPredictiveInsights_def
      predictedOutcome_def ebind_def in_range_def)

subsection \<open>The dashboard over an empty window\<close>

text \<open>
  C7. For every tenant and time window that match no stored analytics document, the
  dashboard rollup is the all-zero and empty structure: no conversations, zero averages,
  and empty lists of emotional trends, top topics, recommendations and time range.
\<close>

theorem empty_window_gives_empty_dashboard:
  assumes "find_analytics st nowMs tenantId' tr = []"
  shows "getDashboardAnalytics st nowMs tenantId' tr =
           \<lparr> overview = \<lparr> totalConversations = 0, avgWellBeing = 0, avgStress = 0,
                            avgSatisfaction = 0, avgEngagement = 0 \<rparr>,
             emotionalTrends = [], topTopics = [], recommendations = [], timeRange = [] \<rparr>"
  using assms by (simp add: getDashboardAnalytics_def aggregateAnalytics_def getEmptyAnalytics_def)

lemma tenant1_window_empty: "find_analytics tenant2_store 1039600000 1 (Days 30) = []"
  by (simp add: find_analytics_def tenant2_store_def tenant2_analytics_def)

theorem empty_window_gives_empty_dashboard_witness:
  "find_analytics tenant2_store 1039600000 1 (Days 30) = []
   \<and> getDashboardAnalytics tenant2_store 1039600000 1 (Days 30) =
       \<lparr> overview = \<lparr> totalConversations = 0, avgWellBeing = 0, avgStress = 0,
                        avgSatisfaction = 0, avgEngagement = 0 \<rparr>,
         emotionalTrends = [], topTopics = [], recommendations = [], timeRange = [] \<rparr>"
  using empty_window_gives_empty_dashboard [OF tenant1_window_empty] tenant1_window_empty
  by simp

subsection \<open>Contextual analysis\<close>

text \<open>
  C9, as claimed: the time of day, day of week and season of the contextual block are
  computed from the conversation's creation time. They are computed from the clock at
  the time of the analysis: a conversation created at 3 in the night and analysed at 2
  in the afternoon gets \<open>afternoon\<close>, not \<open>night\<close>.
\<close>

theorem contextual_time_is_not_creation_time:
  "getHours (createdAt calm_conversation) = 3
   \<and> getTimeOfDay (createdAt calm_conversation) = ''night''
   \<and> timeOfDay (analyzeContextualFactors monday_2pm calm_conversation) = ''afternoon''
   \<and> \<not> isl (analyzeConversation afternoon_env calm_store 8 2 9)
   \<and> timeOfDay (a_contextualAnalysis
         (fst (projr (analyzeConversation afternoon_env calm_store 8 2 9)))) = ''afternoon''"
  by code_simp

lemma getSeason_buckets:
  "getSeason now = [''spring'', ''summer'', ''autumn'', ''winter''] ! min 3 (getMonth now div 3)"
proof -
  consider "getMonth now < 3" | "3 \<le> getMonth now \<and> getMonth now < 6"
    | "6 \<le> getMonth now \<and> getMonth now < 9" | "9 \<le> getMonth now"
    by linarith
  then show ?thesis
  proof cases
    case 1
    then have "getMonth now div 3 = 0" by simp
    with 1 show ?thesis by (simp add: getSeason_def)
  next
    case 2
    then have "getMonth now div 3 = 1" by linarith
    with 2 show ?thesis by (simp add: getSeason_def)
  next
    case 3
    then have "getMonth now div 3 = 2" by linarith
    with 3 show ?thesis by (simp add: getSeason_def)
  next
    case 4
    then have "3 \<le> getMonth now div 3" by linarith
    then have "min 3 (getMonth now div 3) = 3" by simp
    with 4 show ?thesis by (simp add: getSeason_def)
  qed
qed

text \<open>
  C9, amended: the time of day, day of week and season are computed from the clock at
  the time the analysis runs, whatever the conversation, by the fixed rules: an hour
  below 6 is night, below 12 morning, below 18 afternoon, otherwise evening; the day is
  the clock's day of the week; the months are grouped in buckets of 3 (from month 9 on,
  the last bucket).
\<close>

theorem contextual_time_from_clock_at_analysis:
  "timeOfDay (analyzeContextualFactors now conversation) =
     (if getHours now < 6 then ''night''
      else if getHours now < 12 then ''morning''
      else if getHours now < 18 then ''afternoon''
      else ''evening'')
   \<and> dayOfWeek (analyzeContextualFactors now conversation) = getDayOfWeek now
   \<and> season (analyzeContextualFactors now conversation) =
       [''spring'', ''summer'', ''autumn'', ''winter''] ! min 3 (getMonth now div 3)"
  by (simp add: analyzeContextualFactors_def getTimeOfDay_def getSeason_buckets Let_def)

subsection \<open>Trend direction\<close>

text \<open>
  C3, as claimed: a history with the well-being scores 4 and 8, oldest first, gives the
  trend direction \<open>improving\<close>. The fetched history (newest first) has no conversation
  beyond the three most recent ones to compare with, and the direction is \<open>stable\<close>.
\<close>

theorem history_4_8_is_stable:
  "map (\<lambda>c. oe_wellBeingScore (overallEmotion c))
       (rev (find_recentConversations history_4_8 1039600000 9 2)) = [Some 4, Some 8]
   \<and> calculateTrendDirection (find_recentConversations history_4_8 1039600000 9 2) = ''stable''
   \<and> trendDirection (analyzeHistoricalContext afternoon_env history_4_8 9 2
        (extractConversationData (work_conversation\<lparr> overallEmotion := overall_with 8 5 \<rparr>)))
       \<noteq> ''improving''"
  by (simp add: find_recentConversations_def history_4_8_def earlier_conversation_def
      work_conversation_def monday_3am_def overall_with_def calculateTrendDirection_def
      analyzeHistoricalContext_def afternoon_env_def Let_def)

text \<open>
  C3, amended: with fewer than 4 fetched conversations the trend direction is \<open>stable\<close>.
  With 4 or more it compares the mean well-being of the 3 most recent conversations with
  that of the next (up to 3) older ones, a missing or zero score counting as 5, each mean
  computed as the code does in double arithmetic (the scores added from the first on
  and the sum divided by their number, each result rounded to a double):
  \<open>improving\<close> when the recent mean is greater than the older mean plus 0.5 (rounded),
  \<open>declining\<close> when it is less than the older mean minus 0.5 (rounded), \<open>stable\<close> otherwise.
\<close>

theorem trend_direction_compares_means:
  "calculateTrendDirection cs =
     (if length cs < 4 then ''stable''
      else if wellBeing_avg (take 3 cs) > fadd (wellBeing_avg (take 3 (drop 3 cs))) (1/2)
        then ''improving''
      else if wellBeing_avg (take 3 cs) < fsub (wellBeing_avg (take 3 (drop 3 cs))) (1/2)
        then ''declining''
      else ''stable'')"
  by (auto simp: calculateTrendDirection_def Let_def)

text \<open>The rounding decides: for the scores 6, 1.1 and 7.9 against 4.5 the exact mean of the
  recent ones exceeds 5, their mean in double arithmetic is 5, and the direction is
  \<open>stable\<close>.\<close>

lemma rounding_decides_the_direction:
  "(6 + double_of (11/10) + double_of (79/10)) / 3 > 9/2 + (1/2 :: rat)
   \<and> wellBeing_avg (take 3 rounding_history) = 5
   \<and> fadd (wellBeing_avg (take 3 (drop 3 rounding_history))) (1/2) = 5
   \<and> calculateTrendDirection rounding_history = ''stable''"
  by code_simp

text \<open>Known doubles: 0.1, 0.3, 1.1 and 1/3, and the sum of 0.1 and 0.2, which is not 0.3.\<close>

lemma double_of_known_values:
  "double_of (1/10) = 3602879701896397 / 36028797018963968
   \<and> double_of (3/10) = 5404319552844595 / 18014398509481984
   \<and> double_of (11/10) = 2476979795053773 / 2251799813685248
   \<and> double_of (1/3) = 6004799503160661 / 18014398509481984
   \<and> fadd (double_of (1/10)) (double_of (2/10)) = 5404319552844596 / 18014398509481984
   \<and> double_of 5 = 5 \<and> double_of (-3/4) = -3/4"
  by code_simp

subsection \<open>Topics and recommendations of one conversation\<close>

text \<open>The topic analysis every call reaches finds no \<open>topics\<close> in the conversation data.\<close>

lemma analyzeTopics_conversationData:
  "analyzeTopics (ArgObject (ItemConversationData cd)) = []"
  by (simp add: analyzeTopics_def Object_entries_def sort_desc_def)

text \<open>
  C10. For every conversation passed to \<open>analyzeConversation\<close>, the \<open>topics\<close> of the analytics
  document that is persisted is the empty list: the later definition of \<open>analyzeTopics\<close> is
  the one called, and the conversation data has no \<open>topics\<close> for it to read.
\<close>

theorem persisted_topics_empty:
  assumes "analyzeConversation e st conversationId tenantId' userId' = Inr (doc, st')"
  shows "a_topics doc = [] \<and> analytics st' = analytics st @ [doc]"
  using assms
  by (auto simp: analyzeConversation_def analyzeTopics_conversationData ebind_def Let_def
      split: option.splits sum.splits if_splits)

lemma calm_analysis_returns:
  "\<exists>doc st'. analyzeConversation afternoon_env calm_store 8 2 9 = Inr (doc, st')"
proof -
  have "\<not> isl (analyzeConversation afternoon_env calm_store 8 2 9)"
    by code_simp
  then show ?thesis
    by (cases "analyzeConversation afternoon_env calm_store 8 2 9") auto
qed

theorem persisted_topics_empty_witness:
  "\<not> isl (analyzeConversation afternoon_env calm_store 8 2 9)
   \<and> a_topics (fst (projr (analyzeConversation afternoon_env calm_store 8 2 9))) = []"
proof -
  from calm_analysis_returns obtain doc st'
    where r: "analyzeConversation afternoon_env calm_store 8 2 9 = Inr (doc, st')" by blast
  from persisted_topics_empty [OF r] r show ?thesis by simp
qed

text \<open>No conversation gets the recommendation \<open>workplace_improvement\<close>.\<close>

lemma generateRecommendations_no_workplace:
  "\<not> list_ex (\<lambda>r. rec_type r = ''workplace_improvement'') (generateRecommendations cd aiInsights)"
  by (simp add: generateRecommendations_def analyzeTopics_conversationData Let_def)

text \<open>
  C1. The claim: with stress 8, well-being 3 and 4 occurrences of keywords of the topic
  \<open>work\<close>, the recommendations are \<open>emotional_support\<close>/high, \<open>personal_development\<close>/high and
  \<open>workplace_improvement\<close>/medium. At such a conversation (the keyword count of the
  shadowed definition is 4) \<open>generateRecommendations\<close>, with the insights
  \<open>analyzeConversation\<close> passes it, returns the first two only.
\<close>

theorem work_recommendation_missing:
  "oe_stressLevel (overallEmotion work_conversation) = Some 8
   \<and> oe_wellBeingScore (overallEmotion work_conversation) = Some 3
   \<and> map (\<lambda>t. (topic t, frequency t))
         (analyzeTopics_shadowed (extractConversationData work_conversation)) = [(''work'', 4)]
   \<and> map (\<lambda>r. (rec_type r, priority r))
         (generateRecommendations (extractConversationData work_conversation)
            (generateAIInsights (aiInsights_response afternoon_env)))
       = [(''emotional_support'', ''high''), (''personal_development'', ''high'')]"
  by code_simp

text \<open>The document of that analysis holds the two recommendations, and the schema rejects
  it: the analysis throws.\<close>

lemma analysis_with_recommendations_rejected:
  "analyzeConversation afternoon_env work_store 7 2 9 = Inl SaveRejected"
  by code_simp

subsection \<open>Tenants\<close>

text \<open>The dashboard query and the history query return documents of the given tenant only.\<close>

lemma find_analytics_tenant:
  "a \<in> set (find_analytics st nowMs tenantId' tr) \<Longrightarrow> a_tenantId a = tenantId'"
  by (simp add: find_analytics_def)

lemma find_recentConversations_tenant:
  "c \<in> set (find_recentConversations st nowMs userId' tenantId') \<Longrightarrow> tenantId c = tenantId'"
  by (simp add: find_recentConversations_def)

text \<open>
  C2. The claim: every read of the analytics pipeline filters by the caller's tenant, the
  on-demand analysis of one conversation included. The code reads the conversation by
  its identifier alone: user 5 of tenant 1, asking for the analysis of conversation 8,
  which belongs to tenant 2, gets (and has persisted) an analytics document of tenant 1
  whose metrics are those of tenant 2's conversation (well-being 6, stress level 5).
\<close>

theorem analysis_reads_other_tenants_conversation:
  "findById (conversations calm_store) 8 = Some calm_conversation
   \<and> tenantId calm_conversation = 2
   \<and> \<not> isl (analyzeConversation afternoon_env calm_store 8 1 5)
   \<and> a_tenantId (fst (projr (analyzeConversation afternoon_env calm_store 8 1 5))) = 1
   \<and> a_conversationId (fst (projr (analyzeConversation afternoon_env calm_store 8 1 5))) = 8
   \<and> a_metrics (fst (projr (analyzeConversation afternoon_env calm_store 8 1 5)))
       = calculateMetrics (extractConversationData calm_conversation)
   \<and> m_wellBeingScore (a_metrics (fst (projr (analyzeConversation afternoon_env calm_store 8 1 5)))) = 6
   \<and> m_stressLevel (a_metrics (fst (projr (analyzeConversation afternoon_env calm_store 8 1 5)))) = 5
   \<and> analytics (snd (projr (analyzeConversation afternoon_env calm_store 8 1 5)))
       = [fst (projr (analyzeConversation afternoon_env calm_store 8 1 5))]"
  by code_simp

subsection \<open>Completion is terminal\<close>



















text \<open>
  A respond request in flight can still append: the request finds the conversation in
  progress, the conversation is completed while the request waits for the provider, and
  the request's save then pushes its question on the completed conversation.
\<close>

lemma respond_in_flight_appends_after_completion:
  "map (\<lambda>c. (status c, length (questions c)))
       (conversations (sv_store (run \<lparr> sv_store = open_store, sv_in_flight = [] \<rparr>
          [ Arrive_respond failing_route_env 2 9 ''session-9'' full_body,
            Arrive_complete failing_route_env 2 9 ''session-9'',
            Resume 1 ])))
     = [(completed, 1), (completed, 0)]
   \<and> map (\<lambda>c. (status c, length (questions c)))
       (conversations (sv_store (run \<lparr> sv_store = open_store, sv_in_flight = [] \<rparr>
          [ Arrive_respond failing_route_env 2 9 ''session-9'' full_body,
            Arrive_complete failing_route_env 2 9 ''session-9'',
            Resume 1, Resume 0 ])))
     = [(completed, 1), (completed, 1)]"
  by code_simp



end
